theory Spec2Isabelle
  imports Complex_Main
begin

section \<open>JavaScript values used by the market-data hook\<close>

text \<open>
  A JavaScript number is NaN, an infinity or a finite value. Finite values are
  idealised as reals: the rounding of IEEE doubles and the sign of zero are not
  represented. The comparisons, \<open>Math.max\<close>, \<open>Math.min\<close> and \<open>isNaN\<close>
  behave on the special values as the language defines them.
\<close>

datatype jsnum = NaN | NInf | Fin real | PInf

definition isNaN :: "jsnum \<Rightarrow> bool" where
  "isNaN n = (n = NaN)"

definition isFinite :: "jsnum \<Rightarrow> bool" where
  "isFinite n = (case n of Fin r \<Rightarrow> True | _ \<Rightarrow> False)"

text \<open>Truthiness of a number: everything but NaN and zero.\<close>

definition truthy_num :: "jsnum \<Rightarrow> bool" where
  "truthy_num n = (n \<noteq> NaN \<and> n \<noteq> Fin 0)"

text \<open>\<open>a < b\<close> on numbers: false as soon as one side is NaN.\<close>

fun js_less :: "jsnum \<Rightarrow> jsnum \<Rightarrow> bool" where
  "js_less NaN b = False"
| "js_less a NaN = False"
| "js_less (Fin a) (Fin b) = (a < b)"
| "js_less a NInf = False"
| "js_less NInf b = True"
| "js_less PInf b = False"
| "js_less a PInf = True"

definition js_gt :: "jsnum \<Rightarrow> jsnum \<Rightarrow> bool" where
  "js_gt a b = js_less b a"

definition Math_max :: "jsnum \<Rightarrow> jsnum \<Rightarrow> jsnum" where
  "Math_max a b = (if a = NaN \<or> b = NaN then NaN else if js_less a b then b else a)"

definition Math_min :: "jsnum \<Rightarrow> jsnum \<Rightarrow> jsnum" where
  "Math_min a b = (if a = NaN \<or> b = NaN then NaN else if js_less b a then b else a)"

fun js_add :: "jsnum \<Rightarrow> jsnum \<Rightarrow> jsnum" where
  "js_add NaN b = NaN"
| "js_add a NaN = NaN"
| "js_add (Fin a) (Fin b) = Fin (a + b)"
| "js_add PInf NInf = NaN"
| "js_add NInf PInf = NaN"
| "js_add PInf b = PInf"
| "js_add NInf b = NInf"
| "js_add a PInf = PInf"
| "js_add a NInf = NInf"

fun js_neg :: "jsnum \<Rightarrow> jsnum" where
  "js_neg NaN = NaN"
| "js_neg NInf = PInf"
| "js_neg PInf = NInf"
| "js_neg (Fin a) = Fin (- a)"

definition js_sub :: "jsnum \<Rightarrow> jsnum \<Rightarrow> jsnum" where
  "js_sub a b = js_add a (js_neg b)"

text \<open>The sign of a number that is not NaN, as \<open>-1\<close>, \<open>0\<close> or \<open>1\<close>.\<close>

fun js_sign :: "jsnum \<Rightarrow> int" where
  "js_sign NaN = 0"
| "js_sign NInf = - 1"
| "js_sign PInf = 1"
| "js_sign (Fin a) = (if a < 0 then - 1 else if a = 0 then 0 else 1)"

definition signed_inf :: "int \<Rightarrow> jsnum" where
  "signed_inf s = (if s = 0 then NaN else if s < 0 then NInf else PInf)"

fun js_mul :: "jsnum \<Rightarrow> jsnum \<Rightarrow> jsnum" where
  "js_mul NaN b = NaN"
| "js_mul a NaN = NaN"
| "js_mul (Fin a) (Fin b) = Fin (a * b)"
| "js_mul a b = signed_inf (js_sign a * js_sign b)"

text \<open>
  Division. A finite non-zero value over zero is an infinity whose sign is the
  dividend's (the divisor counts as positive zero), zero over zero is NaN.
\<close>

fun js_div :: "jsnum \<Rightarrow> jsnum \<Rightarrow> jsnum" where
  "js_div NaN b = NaN"
| "js_div a NaN = NaN"
| "js_div (Fin a) (Fin b) = (if b = 0 then signed_inf (js_sign (Fin a)) else Fin (a / b))"
| "js_div (Fin a) b = Fin 0"
| "js_div a (Fin b) = signed_inf (js_sign a * (if b < 0 then - 1 else 1))"
| "js_div a b = NaN"

text \<open>
  A scalar of a parsed JSON document, or \<open>undefined\<close> for a missing array
  element or property. \<open>CObj\<close> is a plain object. (Arrays nested inside a
  candle row are not represented.)
\<close>

datatype cell = CUndefined | CNull | CBool bool | CNum jsnum | CStr string | CObj

text \<open>
  \<open>Number(v)\<close>. How a string converts is the parameter \<open>pn\<close>
  (the language's string-to-number grammar).
\<close>

fun Number :: "(string \<Rightarrow> jsnum) \<Rightarrow> cell \<Rightarrow> jsnum" where
  "Number pn CUndefined = NaN"
| "Number pn CNull = Fin 0"
| "Number pn (CBool b) = Fin (if b then 1 else 0)"
| "Number pn (CNum n) = n"
| "Number pn (CStr s) = pn s"
| "Number pn CObj = NaN"

text \<open>Truthiness of a value.\<close>

fun truthy :: "cell \<Rightarrow> bool" where
  "truthy CUndefined = False"
| "truthy CNull = False"
| "truthy (CBool b) = b"
| "truthy (CNum n) = truthy_num n"
| "truthy (CStr s) = (s \<noteq> [])"
| "truthy CObj = True"

text \<open>
  \<open>new Date(v).getTime()\<close>: the time value in milliseconds, \<open>None\<close> for an
  invalid date (where \<open>getTime()\<close> is NaN). A number is clipped to the range of
  dates and truncated towards zero; how a string parses is the parameter \<open>pd\<close>.
\<close>

definition TimeClip :: "jsnum \<Rightarrow> int option" where
  "TimeClip n = (case n of
      Fin r \<Rightarrow> (if \<bar>r\<bar> \<le> 8640000000000000
                then Some (if 0 \<le> r then \<lfloor>r\<rfloor> else \<lceil>r\<rceil>) else None)
    | _ \<Rightarrow> None)"

fun Date_getTime :: "(string \<Rightarrow> int option) \<Rightarrow> cell \<Rightarrow> int option" where
  "Date_getTime pd CUndefined = None"
| "Date_getTime pd CNull = Some 0"
| "Date_getTime pd (CBool b) = Some (if b then 1 else 0)"
| "Date_getTime pd (CNum n) = TimeClip n"
| "Date_getTime pd (CStr s) = pd s"
| "Date_getTime pd CObj = None"

section \<open>Series and quote\<close>

text \<open>A point of the line chart \<open>{t, y}\<close> and a bar of the candlestick chart
  \<open>{x, o, h, l, c}\<close>; \<open>t\<close> is kept as the time value of its Date.\<close>

record line_point =
  lp_t :: int
  lp_y :: jsnum

record candle =
  cd_x :: int
  cd_o :: jsnum
  cd_h :: jsnum
  cd_l :: jsnum
  cd_c :: jsnum

text \<open>
  The timestamp of a quote is the string the server sent, or
  \<open>ts.toISOString()\<close> of a tick time, kept as that time value.
\<close>

datatype stamp = ServerStamp string | TickStamp int

text \<open>
  The quote object. Only the properties the hook reads or writes are named, each
  absent (\<open>undefined\<close>) when \<open>None\<close>; \<open>ohlc_open\<close> is \<open>ohlc?.open\<close>.
\<close>

record quote =
  last_price :: "jsnum option"
  net_change :: "jsnum option"
  ohlc_open :: "jsnum option"
  timestamp :: "stamp option"
  name :: "string option"

section \<open>Mapping a history response (loadInitial)\<close>

text \<open>A raw row of \<open>h.candles\<close>: an array of cells, or anything that is not an array.\<close>

datatype row = Row "cell list" | NotArray

text \<open>Array destructuring: a missing element is \<open>undefined\<close>.\<close>

definition elem :: "cell list \<Rightarrow> nat \<Rightarrow> cell" where
  "elem cs i = (if i < length cs then cs ! i else CUndefined)"

record mapped_row =
  line :: line_point
  candle :: candle

text \<open>The callback of \<open>.map\<close>: \<open>None\<close> is the \<open>null\<close> it returns.\<close>

fun mapRow :: "(string \<Rightarrow> jsnum) \<Rightarrow> (string \<Rightarrow> int option) \<Rightarrow> row \<Rightarrow> mapped_row option" where
  "mapRow pn pd (Row cs) =
     (let dateObj = Date_getTime pd (elem cs 0);
          oNum = Number pn (elem cs 1);
          hNum = Number pn (elem cs 2);
          l = Number pn (elem cs 3);
          cNum = Number pn (elem cs 4)
      in case dateObj of
           None \<Rightarrow> None
         | Some x \<Rightarrow>
             if isNaN oNum \<or> isNaN hNum \<or> isNaN l \<or> isNaN cNum then None
             else Some \<lparr> line = \<lparr> lp_t = x, lp_y = cNum \<rparr>,
                         candle = \<lparr> cd_x = x, cd_o = oNum, cd_h = hNum, cd_l = l, cd_c = cNum \<rparr> \<rparr>)"
| "mapRow pn pd NotArray = None"

text \<open>\<open>(h.candles || []).map(...).filter(Boolean)\<close>\<close>

definition mapped :: "(string \<Rightarrow> jsnum) \<Rightarrow> (string \<Rightarrow> int option) \<Rightarrow> row list \<Rightarrow> mapped_row list" where
  "mapped pn pd rows = map the (filter (\<lambda>m. m \<noteq> None) (map (mapRow pn pd) rows))"

definition lineData :: "(string \<Rightarrow> jsnum) \<Rightarrow> (string \<Rightarrow> int option) \<Rightarrow> row list \<Rightarrow> line_point list" where
  "lineData pn pd rows = map line (mapped pn pd rows)"

definition candleData :: "(string \<Rightarrow> jsnum) \<Rightarrow> (string \<Rightarrow> int option) \<Rightarrow> row list \<Rightarrow> candle list" where
  "candleData pn pd rows = map candle (mapped pn pd rows)"

section \<open>Live ticks (onMessage)\<close>

text \<open>
  An inbound frame after \<open>JSON.parse\<close>. A feed object is represented by the value
  of its \<open>ltpc.ltp\<close> (\<open>CUndefined\<close> when \<open>ltpc\<close> or \<open>ltp\<close> is missing); the
  \<open>feeds\<close> object is a map from keys to feeds; \<open>currentTs\<close> is whatever
  value the frame carries there (\<open>CUndefined\<close> when it carries none).
\<close>

datatype feed = Feed cell

record live_data =
  msg_type :: string
  currentTs :: cell
  feeds :: "(string \<Rightarrow> feed option) option"

text \<open>
  What the closures created by one run of \<open>loadInitial\<close> capture: the hook
  instance whose setters they call, \<open>normalizedKey\<close> and \<open>currentKey\<close>. The
  identifier \<open>cl_id\<close> stands for the identity of the function objects
  \<open>onMessage\<close> and \<open>subscribe\<close> of that run.
\<close>

record closure =
  cl_id :: nat
  cl_hook :: nat
  normalizedKey :: string
  currentKey :: string

text \<open>\<open>data.feeds[normalizedKey] || data.feeds[currentKey]\<close>\<close>

definition lookup_feed :: "closure \<Rightarrow> (string \<Rightarrow> feed option) \<Rightarrow> feed option" where
  "lookup_feed cl fs =
     (case fs (normalizedKey cl) of Some f \<Rightarrow> Some f | None \<Rightarrow> fs (currentKey cl))"

text \<open>
  The guards of \<open>onMessage\<close>: the last-traded price the handler goes on to apply,
  if any.
\<close>

definition tick_ltp :: "(string \<Rightarrow> jsnum) \<Rightarrow> closure \<Rightarrow> live_data \<Rightarrow> jsnum option" where
  "tick_ltp pn cl d =
     (if msg_type d = ''live_feed'' then
        (case feeds d of
           None \<Rightarrow> None
         | Some fs \<Rightarrow>
             (case lookup_feed cl fs of
                None \<Rightarrow> None
              | Some (Feed v) \<Rightarrow>
                  if truthy v then
                    (let ltp = Number pn v in if \<not> isNaN ltp then Some ltp else None)
                  else None))
      else None)"

text \<open>
  \<open>new Date(data.currentTs || Date.now())\<close>, with \<open>now\<close> the clock: the time
  value of the date, \<open>None\<close> when the date is invalid (a number out of the
  range of dates, a string that does not parse).
\<close>

definition tick_time :: "(string \<Rightarrow> int option) \<Rightarrow> live_data \<Rightarrow> int \<Rightarrow> int option" where
  "tick_time pd d now = (if truthy (currentTs d) then Date_getTime pd (currentTs d) else Some now)"

text \<open>The three state updaters of a tick.\<close>

definition setQuote_tick :: "jsnum \<Rightarrow> int \<Rightarrow> quote option \<Rightarrow> quote option" where
  "setQuote_tick ltp ts prev =
     Some (case prev of
        None \<Rightarrow> \<lparr> last_price = Some ltp, net_change = None, ohlc_open = None,
                  timestamp = Some (TickStamp ts), name = None \<rparr>
      | Some p \<Rightarrow> p \<lparr> last_price := Some ltp,
                      timestamp := Some (TickStamp ts),
                      net_change :=
                        (case ohlc_open p of
                           Some opn \<Rightarrow> if truthy_num opn then Some (js_sub ltp opn) else net_change p
                         | None \<Rightarrow> net_change p) \<rparr>)"

text \<open>\<open>xs.slice(-n)\<close>\<close>

definition slice_last :: "nat \<Rightarrow> 'a list \<Rightarrow> 'a list" where
  "slice_last n xs = drop (length xs - n) xs"

definition setCandles_tick :: "jsnum \<Rightarrow> int \<Rightarrow> line_point list \<Rightarrow> line_point list" where
  "setCandles_tick ltp ts prev = slice_last 2000 (prev @ [\<lparr> lp_t = ts, lp_y = ltp \<rparr>])"

definition setOhlcCandles_tick :: "jsnum \<Rightarrow> candle list \<Rightarrow> candle list" where
  "setOhlcCandles_tick ltp prev =
     (if length prev = 0 then []
      else let last = prev ! (length prev - 1)
           in prev [length prev - 1 :=
                last \<lparr> cd_c := ltp, cd_h := Math_max (cd_h last) ltp, cd_l := Math_min (cd_l last) ltp \<rparr>])"

section \<open>The hook instances and the shared socket\<close>

text \<open>What \<open>setError\<close> receives: the message of the error, by its parts.\<close>

datatype load_error =
    NoSymbol
  | FetchRejected string
  | QuoteFetchFailed string nat string
  | HistoryFetchFailed string nat string
  | InstrumentKeyMissing

text \<open>
  The state of one call site of \<open>useMarketApi\<close>: the prop \<open>symbol\<close> of its last
  render, its five state variables and its two refs. \<open>cleanupRef\<close> holds the
  socket and the closures that the stored function removes.
\<close>

record hook =
  symbol :: string
  loading :: bool
  error :: "load_error option"
  quote :: "quote option"
  candles :: "line_point list"
  ohlcCandles :: "candle list"
  instrumentKeyRef :: "string option"
  cleanupRef :: "(nat \<times> nat) option"

definition hook0 :: hook where
  "hook0 = \<lparr> symbol = [], loading = True, error = None, quote = None, candles = [],
             ohlcCandles = [], instrumentKeyRef = None, cleanupRef = None \<rparr>"

text \<open>
  The handler applied to the state of its hook; \<open>None\<close> is a frame on which
  \<open>JSON.parse\<close> throws (caught by the handler). The three updaters of a tick
  run in one render. With an invalid tick time \<open>ts.toISOString()\<close> throws a
  RangeError inside the updater given to \<open>setQuote\<close>, outside the handler's
  \<open>try\<close>: that render fails and none of the three updates is committed.
\<close>

datatype js_error = RangeError

definition onMessage :: "(string \<Rightarrow> jsnum) \<Rightarrow> (string \<Rightarrow> int option) \<Rightarrow> closure \<Rightarrow>
    live_data option \<Rightarrow> int \<Rightarrow> hook \<Rightarrow> js_error + hook" where
  "onMessage pn pd cl ev now k =
     (case ev of
        None \<Rightarrow> Inr k
      | Some d \<Rightarrow>
          (case tick_ltp pn cl d of
             None \<Rightarrow> Inr k
           | Some ltp \<Rightarrow>
               (case tick_time pd d now of
                  None \<Rightarrow> Inl RangeError
                | Some ts \<Rightarrow>
                    Inr (k \<lparr> quote := setQuote_tick ltp ts (quote k),
                              candles := setCandles_tick ltp ts (candles k),
                              ohlcCandles := setOhlcCandles_tick ltp (ohlcCandles k) \<rparr>))))"

datatype readyState = CONNECTING | OPEN | CLOSING | CLOSED

datatype frame = Subscribe string | Unsubscribe string

record socket =
  readyState :: readyState
  message_listeners :: "closure list"
  open_listeners :: "closure list"

text \<open>A call of \<open>loadInitial\<close> whose fetches have not resolved yet, with the
  \<open>symbol\<close> and \<open>ws\<close> of the effect run that started it.\<close>

record load =
  ld_hook :: nat
  ld_symbol :: string
  ld_ws :: nat

text \<open>
  The page: the module variable \<open>wsSingleton\<close>, every WebSocket created so far
  (a socket is named by its index), the frames sent (with the socket they were
  sent on), the hook instances, the loads in flight, a counter for closures, and
  the errors thrown by state updaters (with the hook whose render failed; what
  React does with the tree after a failed render is not represented).
\<close>

record world =
  wsSingleton :: "nat option"
  sockets :: "socket list"
  sent :: "(nat \<times> frame) list"
  hooks :: "nat \<Rightarrow> hook"
  pending :: "load list"
  next_id :: nat
  render_errors :: "(nat \<times> js_error) list"

definition world0 :: world where
  "world0 = \<lparr> wsSingleton = None, sockets = [], sent = [], hooks = (\<lambda>h. hook0),
              pending = [], next_id = 0, render_errors = [] \<rparr>"

definition new_socket :: socket where
  "new_socket = \<lparr> readyState = CONNECTING, message_listeners = [], open_listeners = [] \<rparr>"

definition connect :: "world \<Rightarrow> nat \<times> world" where
  "connect w = (length (sockets w),
                w \<lparr> sockets := sockets w @ [new_socket], wsSingleton := Some (length (sockets w)) \<rparr>)"

definition getWebSocket :: "world \<Rightarrow> nat \<times> world" where
  "getWebSocket w =
     (case wsSingleton w of
        Some c \<Rightarrow> if readyState (sockets w ! c) = OPEN then (c, w) else connect w
      | None \<Rightarrow> connect w)"

definition ws_send :: "nat \<Rightarrow> frame \<Rightarrow> world \<Rightarrow> world" where
  "ws_send c f w = w \<lparr> sent := sent w @ [(c, f)] \<rparr>"

definition upd_hook :: "nat \<Rightarrow> (hook \<Rightarrow> hook) \<Rightarrow> world \<Rightarrow> world" where
  "upd_hook h f w = w \<lparr> hooks := (hooks w) (h := f (hooks w h)) \<rparr>"

definition upd_socket :: "nat \<Rightarrow> (socket \<Rightarrow> socket) \<Rightarrow> world \<Rightarrow> world" where
  "upd_socket c f w = w \<lparr> sockets := (sockets w) [c := f (sockets w ! c)] \<rparr>"

section \<open>The effect of useMarketApi\<close>

text \<open>
  The body of the effect for hook \<open>h\<close> rendered with \<open>symb\<close>, up to the call of
  \<open>loadInitial\<close>, whose two fetches are then in flight. An empty symbol is the
  falsy one; that run returns no cleanup function.
\<close>

definition effect :: "world \<Rightarrow> nat \<Rightarrow> string \<Rightarrow> world" where
  "effect w h symb =
     (if symb = [] then upd_hook h (\<lambda>k. k \<lparr> loading := False, error := Some NoSymbol \<rparr>) w
      else
        let w1 = upd_hook h (\<lambda>k. k \<lparr> loading := True, error := None, quote := None,
                                      candles := [], ohlcCandles := [] \<rparr>) w;
            (ws, w2) = getWebSocket w1;
            w3 = (case instrumentKeyRef (hooks w2 h) of
                    None \<Rightarrow> w2
                  | Some key \<Rightarrow>
                      if key = [] then w2
                      else upd_hook h (\<lambda>k. k \<lparr> instrumentKeyRef := None \<rparr>)
                             (if readyState (sockets w2 ! ws) = OPEN
                              then ws_send ws (Unsubscribe key) w2 else w2))
        in w3 \<lparr> pending := pending w3 @ [\<lparr> ld_hook = h, ld_symbol = symb, ld_ws = ws \<rparr>] \<rparr>)"

text \<open>The function stored in \<open>cleanupRef\<close>: both \<open>removeEventListener\<close> calls.\<close>

definition removeListeners :: "nat \<Rightarrow> nat \<Rightarrow> world \<Rightarrow> world" where
  "removeListeners c i w =
     upd_socket c (\<lambda>s. s \<lparr> message_listeners := filter (\<lambda>cl. cl_id cl \<noteq> i) (message_listeners s),
                            open_listeners := filter (\<lambda>cl. cl_id cl \<noteq> i) (open_listeners s) \<rparr>) w"

text \<open>The cleanup function the effect returns.\<close>

definition cleanup :: "world \<Rightarrow> nat \<Rightarrow> world" where
  "cleanup w h =
     (let w1 = (case cleanupRef (hooks w h) of
                  None \<Rightarrow> w
                | Some (c, i) \<Rightarrow> upd_hook h (\<lambda>k. k \<lparr> cleanupRef := None \<rparr>) (removeListeners c i w))
      in case instrumentKeyRef (hooks w1 h) of
           None \<Rightarrow> w1
         | Some key \<Rightarrow>
             if key = [] then w1
             else (case wsSingleton w1 of
                     None \<Rightarrow> w1
                   | Some s \<Rightarrow>
                       if readyState (sockets w1 ! s) = OPEN
                       then ws_send s (Unsubscribe key) w1 else w1))"

text \<open>
  The lifecycle React drives: a fresh instance runs the effect; a render with
  another symbol runs the cleanup returned by the previous run (if it returned
  one) and then the effect; removing the component runs that cleanup.
\<close>

definition mount :: "world \<Rightarrow> nat \<Rightarrow> string \<Rightarrow> world" where
  "mount w h symb = effect (w \<lparr> hooks := (hooks w) (h := hook0 \<lparr> symbol := symb \<rparr>) \<rparr>) h symb"

definition setSymbol :: "world \<Rightarrow> nat \<Rightarrow> string \<Rightarrow> world" where
  "setSymbol w h symb =
     (if symb = symbol (hooks w h) then w
      else effect (upd_hook h (\<lambda>k. k \<lparr> symbol := symb \<rparr>)
                     (if symbol (hooks w h) \<noteq> [] then cleanup w h else w)) h symb)"

definition unmount :: "world \<Rightarrow> nat \<Rightarrow> world" where
  "unmount w h = (if symbol (hooks w h) \<noteq> [] then cleanup w h else w)"

section \<open>loadInitial after its fetches\<close>

text \<open>
  The outcome of one \<open>fetch\<close>: the promise rejects, or it resolves with a response
  that is not ok (status and body text), or with an ok response (its parsed body).
\<close>

datatype 'a fetched = NetworkError string | HttpError nat string | HttpOk 'a

record history =
  instrument_key :: "string option"
  raw_candles :: "row list"

text \<open>\<open>currentKey.replace('|', ':')\<close>: a string pattern replaces the first match only.\<close>

fun replace_first :: "char \<Rightarrow> char \<Rightarrow> string \<Rightarrow> string" where
  "replace_first a b [] = []"
| "replace_first a b (c # cs) = (if c = a then b # cs else c # replace_first a b cs)"

definition normalize_key :: "string \<Rightarrow> string" where
  "normalize_key k = replace_first (CHR ''|'') (CHR '':'') k"

text \<open>\<open>catch\<close> and \<open>finally\<close>.\<close>

definition load_failed :: "nat \<Rightarrow> load_error \<Rightarrow> world \<Rightarrow> world" where
  "load_failed h e w = upd_hook h (\<lambda>k. k \<lparr> error := Some e, loading := False \<rparr>) w"

text \<open>\<open>ws.addEventListener\<close>\<close>

definition add_message_listener :: "nat \<Rightarrow> closure \<Rightarrow> world \<Rightarrow> world" where
  "add_message_listener c cl w =
     upd_socket c (\<lambda>s. s \<lparr> message_listeners := message_listeners s @ [cl] \<rparr>) w"

definition add_open_listener :: "nat \<Rightarrow> closure \<Rightarrow> world \<Rightarrow> world" where
  "add_open_listener c cl w =
     upd_socket c (\<lambda>s. s \<lparr> open_listeners := open_listeners s @ [cl] \<rparr>) w"

text \<open>The closure \<open>subscribe\<close>, called for socket \<open>c\<close>.\<close>

definition subscribe :: "nat \<Rightarrow> closure \<Rightarrow> world \<Rightarrow> world" where
  "subscribe c cl w =
     (if readyState (sockets w ! c) = OPEN then ws_send c (Subscribe (currentKey cl)) w else w)"

text \<open>
  The body of \<open>loadInitial\<close> from the point where \<open>Promise.all\<close> settles, run as
  one step (its later \<open>await\<close>s on the bodies are not separated). When both
  fetches reject, the rejection of the quote fetch is the one reported.
\<close>

fun loadInitial :: "(string \<Rightarrow> jsnum) \<Rightarrow> (string \<Rightarrow> int option) \<Rightarrow> load \<Rightarrow>
    quote option fetched \<Rightarrow> history fetched \<Rightarrow> world \<Rightarrow> world" where
  "loadInitial pn pd ld (NetworkError e) hRes w = load_failed (ld_hook ld) (FetchRejected e) w"
| "loadInitial pn pd ld qRes (NetworkError e) w = load_failed (ld_hook ld) (FetchRejected e) w"
| "loadInitial pn pd ld (HttpError st errText) hRes w =
     load_failed (ld_hook ld) (QuoteFetchFailed (ld_symbol ld) st errText) w"
| "loadInitial pn pd ld (HttpOk q) (HttpError st errText) w =
     load_failed (ld_hook ld) (HistoryFetchFailed (ld_symbol ld) st errText)
       (upd_hook (ld_hook ld) (\<lambda>k. k \<lparr> quote := q \<rparr>) w)"
| "loadInitial pn pd ld (HttpOk q) (HttpOk hist) w =
     (let h = ld_hook ld;
          ws = ld_ws ld;
          w1 = upd_hook h (\<lambda>k. k \<lparr> quote := q \<rparr>) w
      in case instrument_key hist of
           None \<Rightarrow> load_failed h InstrumentKeyMissing w1
         | Some key \<Rightarrow>
             if key = [] then load_failed h InstrumentKeyMissing w1
             else
               let cl = \<lparr> cl_id = next_id w1, cl_hook = h,
                          normalizedKey = normalize_key key, currentKey = key \<rparr>;
                   w2 = upd_hook h (\<lambda>k. k \<lparr> instrumentKeyRef := Some key,
                                             candles := lineData pn pd (raw_candles hist),
                                             ohlcCandles := candleData pn pd (raw_candles hist) \<rparr>) w1;
                   w3 = (if readyState (sockets w2 ! ws) = OPEN then subscribe ws cl w2
                         else add_open_listener ws cl w2);
                   w4 = add_message_listener ws cl w3;
                   w5 = upd_hook h (\<lambda>k. k \<lparr> cleanupRef := Some (ws, cl_id cl), loading := False \<rparr>) w4
               in w5 \<lparr> next_id := Suc (next_id w5) \<rparr>)"

text \<open>The \<open>i\<close>-th load in flight gets its two responses.\<close>

definition resolve :: "(string \<Rightarrow> jsnum) \<Rightarrow> (string \<Rightarrow> int option) \<Rightarrow> world \<Rightarrow> nat \<Rightarrow>
    quote option fetched \<Rightarrow> history fetched \<Rightarrow> world" where
  "resolve pn pd w i qRes hRes =
     (if i < length (pending w)
      then loadInitial pn pd (pending w ! i) qRes hRes
             (w \<lparr> pending := take i (pending w) @ drop (Suc i) (pending w) \<rparr>)
      else w)"

section \<open>Socket events\<close>

text \<open>
  The socket opens: \<open>onopen\<close> logs, then every \<open>subscribe\<close> registered with
  \<open>once\<close> runs and is removed.
\<close>

definition ws_open :: "world \<Rightarrow> nat \<Rightarrow> world" where
  "ws_open w c =
     (if c < length (sockets w) \<and> readyState (sockets w ! c) = CONNECTING then
        let w1 = upd_socket c (\<lambda>s. s \<lparr> readyState := OPEN \<rparr>) w;
            w2 = foldl (\<lambda>v cl. subscribe c cl v) w1 (open_listeners (sockets w1 ! c))
        in upd_socket c (\<lambda>s. s \<lparr> open_listeners := [] \<rparr>) w2
      else w)"

text \<open>The socket closes: \<open>onclose\<close> clears the module variable.\<close>

definition ws_close :: "world \<Rightarrow> nat \<Rightarrow> world" where
  "ws_close w c =
     (if c < length (sockets w) \<and> readyState (sockets w ! c) \<noteq> CLOSED then
        (upd_socket c (\<lambda>s. s \<lparr> readyState := CLOSED \<rparr>) w) \<lparr> wsSingleton := None \<rparr>
      else w)"

text \<open>One message listener runs on a frame.\<close>

definition deliver :: "(string \<Rightarrow> jsnum) \<Rightarrow> (string \<Rightarrow> int option) \<Rightarrow> live_data option \<Rightarrow> int \<Rightarrow>
    world \<Rightarrow> closure \<Rightarrow> world" where
  "deliver pn pd ev now v cl =
     (case onMessage pn pd cl ev now (hooks v (cl_hook cl)) of
        Inr k \<Rightarrow> upd_hook (cl_hook cl) (\<lambda>old. k) v
      | Inl e \<Rightarrow> v \<lparr> render_errors := render_errors v @ [(cl_hook cl, e)] \<rparr>)"

text \<open>A frame arrives on an open socket: each message listener runs, in the
  order of registration.\<close>

definition ws_message :: "(string \<Rightarrow> jsnum) \<Rightarrow> (string \<Rightarrow> int option) \<Rightarrow> world \<Rightarrow> nat \<Rightarrow>
    live_data option \<Rightarrow> int \<Rightarrow> world" where
  "ws_message pn pd w c ev now =
     (if c < length (sockets w) \<and> readyState (sockets w ! c) = OPEN then
        foldl (deliver pn pd ev now) w (message_listeners (sockets w ! c))
      else w)"

text \<open>A socket counts as live while it is connecting or open.\<close>

definition live_sockets :: "world \<Rightarrow> nat" where
  "live_sockets w = length (filter (\<lambda>s. readyState s = CONNECTING \<or> readyState s = OPEN) (sockets w))"

text \<open>Frames of one kind sent for a key, on any socket.\<close>

definition subscribes :: "string \<Rightarrow> world \<Rightarrow> nat" where
  "subscribes key w = length (filter (\<lambda>p. snd p = Subscribe key) (sent w))"

definition unsubscribes :: "string \<Rightarrow> world \<Rightarrow> nat" where
  "unsubscribes key w = length (filter (\<lambda>p. snd p = Unsubscribe key) (sent w))"

section \<open>The paper-trading ledger (Dashboard)\<close>

record trade =
  tr_symbol :: string
  tr_type :: string
  tr_quantity :: jsnum
  tr_price :: jsnum

record holding =
  quantity :: jsnum
  avgPrice :: jsnum

record ledger =
  trades :: "trade list"
  portfolio :: "string \<Rightarrow> holding option"
  balance :: jsnum

text \<open>\<open>handleTrade\<close>, called in a render whose \<open>balance\<close> and \<open>portfolio\<close> are
  those of the state it updates.\<close>

definition handleTrade :: "ledger \<Rightarrow> trade \<Rightarrow> ledger" where
  "handleTrade s tr =
     (let s1 = s \<lparr> trades := trades s @ [tr] \<rparr>
      in if tr_type tr = ''buy'' then
           (let cost = js_mul (tr_quantity tr) (tr_price tr)
            in if js_gt cost (balance s) then s1
               else
                 let existing = (case portfolio s1 (tr_symbol tr) of
                                   Some e \<Rightarrow> e
                                 | None \<Rightarrow> \<lparr> quantity = Fin 0, avgPrice = Fin 0 \<rparr>);
                     totalQuantity = js_add (quantity existing) (tr_quantity tr);
                     totalCost = js_add (js_mul (quantity existing) (avgPrice existing)) cost
                 in s1 \<lparr> balance := js_sub (balance s1) cost,
                         portfolio := (portfolio s1) (tr_symbol tr \<mapsto>
                            \<lparr> quantity = totalQuantity, avgPrice = js_div totalCost totalQuantity \<rparr>) \<rparr>)
         else if tr_type tr = ''sell'' then
           (case portfolio s (tr_symbol tr) of
              None \<Rightarrow> s1
            | Some hld \<Rightarrow>
                if js_less (quantity hld) (tr_quantity tr) then s1
                else
                  let revenue = js_mul (tr_quantity tr) (tr_price tr);
                      newQuantity = js_sub (quantity hld) (tr_quantity tr)
                  in s1 \<lparr> balance := js_add (balance s1) revenue,
                          portfolio :=
                            (if newQuantity = Fin 0 then (portfolio s1) (tr_symbol tr := None)
                             else (portfolio s1) (tr_symbol tr \<mapsto> hld \<lparr> quantity := newQuantity \<rparr>)) \<rparr>)
         else s1)"

section \<open>Predicates and scenarios used in the statements\<close>

text \<open>
  A structurally valid row in the words of the specification: an array whose
  timestamp parses and whose open, high, low and close are finite numbers.
\<close>

definition spec_valid_row :: "(string \<Rightarrow> jsnum) \<Rightarrow> (string \<Rightarrow> int option) \<Rightarrow> row \<Rightarrow> bool" where
  "spec_valid_row pn pd r =
     (case r of
        NotArray \<Rightarrow> False
      | Row cs \<Rightarrow> Date_getTime pd (elem cs 0) \<noteq> None
                 \<and> isFinite (Number pn (elem cs 1)) \<and> isFinite (Number pn (elem cs 2))
                 \<and> isFinite (Number pn (elem cs 3)) \<and> isFinite (Number pn (elem cs 4)))"

text \<open>
  The rows the mapping keeps: arrays whose timestamp parses and whose open, high,
  low and close do not convert to NaN.
\<close>

definition row_kept :: "(string \<Rightarrow> jsnum) \<Rightarrow> (string \<Rightarrow> int option) \<Rightarrow> row \<Rightarrow> bool" where
  "row_kept pn pd r =
     (case r of
        NotArray \<Rightarrow> False
      | Row cs \<Rightarrow> Date_getTime pd (elem cs 0) \<noteq> None
                 \<and> \<not> isNaN (Number pn (elem cs 1)) \<and> \<not> isNaN (Number pn (elem cs 2))
                 \<and> \<not> isNaN (Number pn (elem cs 3)) \<and> \<not> isNaN (Number pn (elem cs 4)))"

text \<open>String conversions for the concrete scenarios: no string is a number or a date.\<close>

definition no_number :: "string \<Rightarrow> jsnum" where
  "no_number s = NaN"

definition no_date :: "string \<Rightarrow> int option" where
  "no_date s = None"

text \<open>The history response \<open>{instrument_key, candles: [[1700000000000,100,105,98,102]]}\<close>.\<close>

definition hist1 :: history where
  "hist1 = \<lparr> instrument_key = Some ''NSE_INDEX|Nifty 50'',
             raw_candles = [Row [CNum (Fin 1700000000000), CNum (Fin 100), CNum (Fin 105),
                                 CNum (Fin 98), CNum (Fin 102)]] \<rparr>"

text \<open>A quote snapshot for the scenarios.\<close>

definition quote1 :: quote where
  "quote1 = \<lparr> last_price = Some (Fin 102), net_change = Some (Fin 2), ohlc_open = Some (Fin 100),
              timestamp = Some (ServerStamp ''2023-11-14T22:13:20Z''), name = Some ''NIFTY 50'' \<rparr>"

text \<open>
  One chart of NIFTY 50: the widget mounts, the socket opens, the load resolves
  with \<open>quote1\<close> and \<open>hist1\<close>. \<open>closure1\<close> is the listener that load
  registers, \<open>tick1\<close> a frame with last-traded price 103 under the colon form
  of the key.
\<close>

definition loaded1 :: world where
  "loaded1 = resolve no_number no_date (ws_open (mount world0 0 ''NIFTY 50'') 0) 0
               (HttpOk (Some quote1)) (HttpOk hist1)"

definition closure1 :: closure where
  "closure1 = \<lparr> cl_id = 0, cl_hook = 0, normalizedKey = ''NSE_INDEX:Nifty 50'',
                currentKey = ''NSE_INDEX|Nifty 50'' \<rparr>"

definition tick1 :: live_data where
  "tick1 = \<lparr> msg_type = ''live_feed'', currentTs = CNum (Fin 1700000060000),
             feeds = Some [''NSE_INDEX:Nifty 50'' \<mapsto> Feed (CNum (Fin 103))] \<rparr>"

text \<open>A history response whose only row has an infinite high (as \<open>1e999\<close> parses).\<close>

definition hist_inf :: history where
  "hist_inf = \<lparr> instrument_key = Some ''NSE_EQ|INE002A01018'',
      raw_candles = [Row [CNum (Fin 1700000000000), CNum (Fin 100), CNum PInf, CNum (Fin 98),
                          CNum (Fin 102)]] \<rparr>"

text \<open>A history response with two good rows and three malformed ones.\<close>

definition hist_mixed :: history where
  "hist_mixed = \<lparr> instrument_key = Some ''NSE_EQ|INE002A01018'',
      raw_candles =
        [Row [CNum (Fin 1700000000000), CNum (Fin 100), CNum (Fin 105), CNum (Fin 98), CNum (Fin 102)],
         Row [CNum (Fin 1700000060000), CNum (Fin 102), CNum (Fin 106), CNum (Fin 101), CStr ''n/a''],
         NotArray,
         Row [CStr ''yesterday'', CNum (Fin 102), CNum (Fin 106), CNum (Fin 101), CNum (Fin 104)],
         Row [CNum (Fin 1700000120000), CNum (Fin 102), CNum (Fin 107), CNum (Fin 101), CNum (Fin 106)]] \<rparr>"

text \<open>The responses for RELIANCE.\<close>

definition quoteA :: quote where
  "quoteA = \<lparr> last_price = Some (Fin 2500), net_change = Some (Fin 10), ohlc_open = Some (Fin 2490),
              timestamp = Some (ServerStamp ''2023-11-14T22:13:20Z''), name = Some ''RELIANCE'' \<rparr>"

definition histA :: history where
  "histA = \<lparr> instrument_key = Some ''NSE_EQ|INE002A01018'',
      raw_candles = [Row [CNum (Fin 1700000000000), CNum (Fin 2490), CNum (Fin 2510),
                          CNum (Fin 2480), CNum (Fin 2500)]] \<rparr>"

text \<open>
  A chart shows RELIANCE and is switched to NIFTY 50 before the RELIANCE load has
  resolved; the NIFTY 50 load resolves (\<open>switched\<close>); then the RELIANCE load
  resolves (\<open>stale_applied\<close>).
\<close>

definition switched :: world where
  "switched = resolve no_number no_date
                (setSymbol (ws_open (mount world0 0 ''RELIANCE'') 0) 0 ''NIFTY 50'') 1
                (HttpOk (Some quote1)) (HttpOk hist1)"

definition stale_applied :: world where
  "stale_applied = resolve no_number no_date switched 0 (HttpOk (Some quoteA)) (HttpOk histA)"

text \<open>An open shared socket and no widget yet.\<close>

definition open_world :: world where
  "open_world = ws_open (snd (getWebSocket world0)) 0"

text \<open>
  Widgets taking and giving up one instrument: \<open>Acquire h\<close> is a fresh widget
  \<open>h\<close> that mounts with the symbol and whose load resolves successfully;
  \<open>Release h\<close> is the removal of widget \<open>h\<close>. In a \<open>lifecycle\<close> a widget
  is released only while it is mounted and an identifier in use is not mounted
  again; \<open>refcount\<close> is the number of acquires less the number of releases.
\<close>

datatype widget_op = Acquire nat | Release nat

definition acquire :: "(string \<Rightarrow> jsnum) \<Rightarrow> (string \<Rightarrow> int option) \<Rightarrow> string \<Rightarrow> quote option \<Rightarrow>
    history \<Rightarrow> world \<Rightarrow> nat \<Rightarrow> world" where
  "acquire pn pd symb q hist w h =
     resolve pn pd (mount w h symb) (length (pending w)) (HttpOk q) (HttpOk hist)"

fun run_ops :: "(string \<Rightarrow> jsnum) \<Rightarrow> (string \<Rightarrow> int option) \<Rightarrow> string \<Rightarrow> quote option \<Rightarrow>
    history \<Rightarrow> world \<Rightarrow> widget_op list \<Rightarrow> world" where
  "run_ops pn pd symb q hist w [] = w"
| "run_ops pn pd symb q hist w (Acquire h # ops) =
     run_ops pn pd symb q hist (acquire pn pd symb q hist w h) ops"
| "run_ops pn pd symb q hist w (Release h # ops) =
     run_ops pn pd symb q hist (unmount w h) ops"

fun lifecycle :: "nat set \<Rightarrow> widget_op list \<Rightarrow> bool" where
  "lifecycle H [] = True"
| "lifecycle H (Acquire h # ops) = (h \<notin> H \<and> lifecycle (insert h H) ops)"
| "lifecycle H (Release h # ops) = (h \<in> H \<and> lifecycle (H - {h}) ops)"

fun refcount :: "widget_op list \<Rightarrow> int" where
  "refcount [] = 0"
| "refcount (Acquire h # ops) = 1 + refcount ops"
| "refcount (Release h # ops) = refcount ops - 1"

text \<open>The shared socket \<open>c\<close> is open and every widget of \<open>H\<close> holds \<open>key\<close>.\<close>

definition open_inv :: "nat \<Rightarrow> string \<Rightarrow> nat set \<Rightarrow> world \<Rightarrow> bool" where
  "open_inv c key H w =
     (wsSingleton w = Some c \<and> c < length (sockets w) \<and> readyState (sockets w ! c) = OPEN
      \<and> (\<forall>h\<in>H. instrumentKeyRef (hooks w h) = Some key \<and> symbol (hooks w h) \<noteq> []))"


text \<open>
  Two widgets on one open socket. In \<open>two_sessions\<close> widget 0 holds the key
  \<open>NSE_EQ:ABC|1\<close> and widget 1 the key \<open>NSE_EQ|ABC|1\<close>; \<open>tickK\<close> carries only
  the key of widget 0. In \<open>two_charts\<close> widget 0 holds the RELIANCE key and
  widget 1 the NIFTY 50 key; \<open>tickA\<close> carries only the RELIANCE key, in its
  colon form.
\<close>

definition histK :: history where
  "histK = \<lparr> instrument_key = Some ''NSE_EQ:ABC|1'',
      raw_candles = [Row [CNum (Fin 1700000000000), CNum (Fin 100), CNum (Fin 105), CNum (Fin 98),
                          CNum (Fin 102)]] \<rparr>"

definition histJ :: history where
  "histJ = \<lparr> instrument_key = Some ''NSE_EQ|ABC|1'',
      raw_candles = [Row [CNum (Fin 1700000000000), CNum (Fin 2490), CNum (Fin 2510),
                          CNum (Fin 2480), CNum (Fin 2500)]] \<rparr>"

definition two_sessions :: world where
  "two_sessions = resolve no_number no_date
      (resolve no_number no_date (mount (mount open_world 0 ''KKK'') 1 ''JJJ'') 0
         (HttpOk (Some quote1)) (HttpOk histK))
      0 (HttpOk (Some quoteA)) (HttpOk histJ)"

definition tickK :: live_data where
  "tickK = \<lparr> msg_type = ''live_feed'', currentTs = CNum (Fin 1700000060000),
             feeds = Some [''NSE_EQ:ABC|1'' \<mapsto> Feed (CNum (Fin 103))] \<rparr>"



text \<open>The ledger at start, one with a holding, and two orders that are refused.\<close>

definition ledger0 :: ledger where
  "ledger0 = \<lparr> trades = [], portfolio = (\<lambda>s. None), balance = Fin 100000 \<rparr>"

definition ledger1 :: ledger where
  "ledger1 = \<lparr> trades = [], portfolio = [''TCS'' \<mapsto> \<lparr> quantity = Fin 5, avgPrice = Fin 3500 \<rparr>],
               balance = Fin 82500 \<rparr>"

definition big_buy :: trade where
  "big_buy = \<lparr> tr_symbol = ''RELIANCE'', tr_type = ''buy'', tr_quantity = Fin 100,
               tr_price = Fin 2500 \<rparr>"

definition big_sell :: trade where
  "big_sell = \<lparr> tr_symbol = ''TCS'', tr_type = ''sell'', tr_quantity = Fin 10,
                tr_price = Fin 3600 \<rparr>"

text \<open>
  Further frames for the NIFTY 50 chart: price 110 under the raw key only and
  with no \<open>currentTs\<close>; price 90; price 0; price 103 with a \<open>currentTs\<close>
  beyond the range of dates. \<open>quote_open0\<close> is a quote whose open price is 0.
\<close>

definition tick_raw :: live_data where
  "tick_raw = \<lparr> msg_type = ''live_feed'', currentTs = CUndefined,
                feeds = Some [''NSE_INDEX|Nifty 50'' \<mapsto> Feed (CNum (Fin 110))] \<rparr>"

definition tick_low :: live_data where
  "tick_low = \<lparr> msg_type = ''live_feed'', currentTs = CNum (Fin 1700000060000),
                feeds = Some [''NSE_INDEX:Nifty 50'' \<mapsto> Feed (CNum (Fin 90))] \<rparr>"

definition tick_zero :: live_data where
  "tick_zero = \<lparr> msg_type = ''live_feed'', currentTs = CNum (Fin 1700000060000),
                 feeds = Some [''NSE_INDEX:Nifty 50'' \<mapsto> Feed (CNum (Fin 0))] \<rparr>"

definition tick_late :: live_data where
  "tick_late = \<lparr> msg_type = ''live_feed'', currentTs = CNum (Fin 9000000000000000),
                 feeds = Some [''NSE_INDEX:Nifty 50'' \<mapsto> Feed (CNum (Fin 103))] \<rparr>"

definition quote_open0 :: quote where
  "quote_open0 = quote1 \<lparr> ohlc_open := Some (Fin 0) \<rparr>"

text \<open>
  The events of the page, and the page after a list of them: a widget mounts, is
  rendered with another symbol, is removed; the \<open>i\<close>-th load in flight gets its
  responses; a socket opens, closes, or delivers a frame.
\<close>

datatype event =
    Mount nat string
  | SetSymbol nat string
  | Unmount nat
  | Resolve nat "quote option fetched" "history fetched"
  | WsOpen nat
  | WsClose nat
  | WsMessage nat "live_data option" int

fun step :: "(string \<Rightarrow> jsnum) \<Rightarrow> (string \<Rightarrow> int option) \<Rightarrow> world \<Rightarrow> event \<Rightarrow> world" where
  "step pn pd w (Mount h symb) = mount w h symb"
| "step pn pd w (SetSymbol h symb) = setSymbol w h symb"
| "step pn pd w (Unmount h) = unmount w h"
| "step pn pd w (Resolve i qRes hRes) = resolve pn pd w i qRes hRes"
| "step pn pd w (WsOpen c) = ws_open w c"
| "step pn pd w (WsClose c) = ws_close w c"
| "step pn pd w (WsMessage c ev now) = ws_message pn pd w c ev now"

definition run :: "(string \<Rightarrow> jsnum) \<Rightarrow> (string \<Rightarrow> int option) \<Rightarrow> world \<Rightarrow> event list \<Rightarrow> world" where
  "run pn pd w es = foldl (step pn pd) w es"

text \<open>Every message listener registered for widget \<open>j\<close> is one for the key \<open>J\<close>.\<close>

definition listens_only :: "nat \<Rightarrow> string \<Rightarrow> world \<Rightarrow> bool" where
  "listens_only j J w =
     (\<forall>s \<in> set (sockets w). \<forall>cl \<in> set (message_listeners s).
        cl_hook cl = j \<longrightarrow> currentKey cl = J \<and> normalizedKey cl = normalize_key J)"






section \<open>Evaluating the scenarios\<close>

lemmas eval_defs = mount_def effect_def getWebSocket_def connect_def upd_hook_def upd_socket_def
  ws_send_def new_socket_def world0_def hook0_def Let_def resolve_def ws_open_def
  subscribe_def add_open_listener_def add_message_listener_def load_failed_def
  lineData_def candleData_def mapped_def elem_def isNaN_def TimeClip_def normalize_key_def

lemma loaded1_eval:
  "loaded1 = \<lparr> wsSingleton = Some 0,
      sockets = [\<lparr> readyState = OPEN, message_listeners = [closure1], open_listeners = [] \<rparr>],
      sent = [(0, Subscribe ''NSE_INDEX|Nifty 50'')],
      hooks = (\<lambda>h. hook0) (0 := \<lparr> symbol = ''NIFTY 50'', loading = False, error = None,
          quote = Some quote1,
          candles = [\<lparr> lp_t = 1700000000000, lp_y = Fin 102 \<rparr>],
          ohlcCandles = [\<lparr> cd_x = 1700000000000, cd_o = Fin 100, cd_h = Fin 105, cd_l = Fin 98,
                           cd_c = Fin 102 \<rparr>],
          instrumentKeyRef = Some ''NSE_INDEX|Nifty 50'', cleanupRef = Some (0, 0) \<rparr>),
      pending = [], next_id = 1, render_errors = [] \<rparr>"
  by (simp add: loaded1_def hist1_def closure1_def eval_defs)

lemma switched_eval:
  "switched = \<lparr> wsSingleton = Some 0,
      sockets = [\<lparr> readyState = OPEN, message_listeners = [closure1], open_listeners = [] \<rparr>],
      sent = [(0, Subscribe ''NSE_INDEX|Nifty 50'')],
      hooks = (\<lambda>h. hook0) (0 := \<lparr> symbol = ''NIFTY 50'', loading = False, error = None,
          quote = Some quote1,
          candles = [\<lparr> lp_t = 1700000000000, lp_y = Fin 102 \<rparr>],
          ohlcCandles = [\<lparr> cd_x = 1700000000000, cd_o = Fin 100, cd_h = Fin 105, cd_l = Fin 98,
                           cd_c = Fin 102 \<rparr>],
          instrumentKeyRef = Some ''NSE_INDEX|Nifty 50'', cleanupRef = Some (0, 0) \<rparr>),
      pending = [\<lparr> ld_hook = 0, ld_symbol = ''RELIANCE'', ld_ws = 0 \<rparr>], next_id = 1,
      render_errors = [] \<rparr>"
  by (simp add: switched_def hist1_def closure1_def setSymbol_def cleanup_def eval_defs)

lemma open_world_eval:
  "open_world = \<lparr> wsSingleton = Some 0,
      sockets = [\<lparr> readyState = OPEN, message_listeners = [], open_listeners = [] \<rparr>],
      sent = [], hooks = (\<lambda>h. hook0), pending = [], next_id = 0, render_errors = [] \<rparr>"
  by (simp add: open_world_def eval_defs)

lemma two_sessions_eval:
  "two_sessions = \<lparr> wsSingleton = Some 0,
      sockets = [\<lparr> readyState = OPEN,
         message_listeners =
           [\<lparr> cl_id = 0, cl_hook = 0, normalizedKey = ''NSE_EQ:ABC:1'', currentKey = ''NSE_EQ:ABC|1'' \<rparr>,
            \<lparr> cl_id = 1, cl_hook = 1, normalizedKey = ''NSE_EQ:ABC|1'', currentKey = ''NSE_EQ|ABC|1'' \<rparr>],
         open_listeners = [] \<rparr>],
      sent = [(0, Subscribe ''NSE_EQ:ABC|1''), (0, Subscribe ''NSE_EQ|ABC|1'')],
      hooks = (\<lambda>h. hook0)
        (0 := \<lparr> symbol = ''KKK'', loading = False, error = None, quote = Some quote1,
            candles = [\<lparr> lp_t = 1700000000000, lp_y = Fin 102 \<rparr>],
            ohlcCandles = [\<lparr> cd_x = 1700000000000, cd_o = Fin 100, cd_h = Fin 105, cd_l = Fin 98,
                             cd_c = Fin 102 \<rparr>],
            instrumentKeyRef = Some ''NSE_EQ:ABC|1'', cleanupRef = Some (0, 0) \<rparr>,
         1 := \<lparr> symbol = ''JJJ'', loading = False, error = None, quote = Some quoteA,
            candles = [\<lparr> lp_t = 1700000000000, lp_y = Fin 2500 \<rparr>],
            ohlcCandles = [\<lparr> cd_x = 1700000000000, cd_o = Fin 2490, cd_h = Fin 2510,
                             cd_l = Fin 2480, cd_c = Fin 2500 \<rparr>],
            instrumentKeyRef = Some ''NSE_EQ|ABC|1'', cleanupRef = Some (0, 1) \<rparr>),
      pending = [], next_id = 2, render_errors = [] \<rparr>"
  by (simp add: two_sessions_def open_world_eval histK_def histJ_def eval_defs)



section \<open>Properties of the history mapping\<close>

lemma mapRow_None_iff: "mapRow pn pd r = None \<longleftrightarrow> \<not> row_kept pn pd r"
  by (cases r) (auto simp: row_kept_def Let_def split: option.splits)

lemma row_kept_iff: "row_kept pn pd r \<longleftrightarrow> mapRow pn pd r \<noteq> None"
  by (simp add: mapRow_None_iff)

lemma isFinite_not_NaN: "isFinite n \<Longrightarrow> \<not> isNaN n"
  by (cases n) (simp_all add: isFinite_def isNaN_def)

lemma spec_valid_kept: "spec_valid_row pn pd r \<Longrightarrow> row_kept pn pd r"
  by (cases r) (simp_all add: spec_valid_row_def row_kept_def isFinite_not_NaN)

lemma mapRow_aligned:
  "mapRow pn pd r = Some m \<Longrightarrow> lp_t (line m) = cd_x (candle m) \<and> lp_y (line m) = cd_c (candle m)"
  by (cases r) (auto simp: Let_def split: option.splits if_splits)

lemma mapped_filter:
  "map Some (mapped pn pd rows) = map (mapRow pn pd) (filter (row_kept pn pd) rows)"
  by (induction rows) (auto simp: mapped_def row_kept_iff)

lemma length_mapped: "length (mapped pn pd rows) = length (filter (row_kept pn pd) rows)"
  using arg_cong[OF mapped_filter, of length] by simp

lemma mapped_nth:
  assumes "j < length (filter (row_kept pn pd) rows)"
  shows "mapRow pn pd (filter (row_kept pn pd) rows ! j) = Some (mapped pn pd rows ! j)"
proof -
  have "map Some (mapped pn pd rows) ! j = map (mapRow pn pd) (filter (row_kept pn pd) rows) ! j"
    by (simp add: mapped_filter)
  with assms show ?thesis by (simp add: length_mapped)
qed

lemma mapped_all_aligned:
  "j < length (mapped pn pd rows) \<Longrightarrow>
   lp_t (line (mapped pn pd rows ! j)) = cd_x (candle (mapped pn pd rows ! j)) \<and>
   lp_y (line (mapped pn pd rows ! j)) = cd_c (candle (mapped pn pd rows ! j))"
  using mapped_nth[of j pn pd rows] mapRow_aligned by (simp add: length_mapped)

section \<open>What a load leaves in its hook\<close>

lemma loadInitial_ok_hook:
  assumes "instrument_key hist = Some key" "key \<noteq> []"
  shows "hooks (loadInitial pn pd ld (HttpOk q) (HttpOk hist) w) (ld_hook ld)
         = (hooks w (ld_hook ld)) \<lparr> quote := q, instrumentKeyRef := Some key,
               candles := lineData pn pd (raw_candles hist),
               ohlcCandles := candleData pn pd (raw_candles hist),
               cleanupRef := Some (ld_ws ld, next_id w), loading := False \<rparr>"
  using assms
  by (simp add: Let_def upd_hook_def subscribe_def ws_send_def add_open_listener_def
        add_message_listener_def upd_socket_def)

lemma resolve_ok_hook:
  assumes "i < length (pending w)" "instrument_key hist = Some key" "key \<noteq> []"
  shows "hooks (resolve pn pd w i (HttpOk q) (HttpOk hist)) (ld_hook (pending w ! i))
         = (hooks w (ld_hook (pending w ! i))) \<lparr> quote := q, instrumentKeyRef := Some key,
               candles := lineData pn pd (raw_candles hist),
               ohlcCandles := candleData pn pd (raw_candles hist),
               cleanupRef := Some (ld_ws (pending w ! i), next_id w), loading := False \<rparr>"
  using assms(1)
    loadInitial_ok_hook[OF assms(2,3), of pn pd "pending w ! i" q
      "w \<lparr> pending := take i (pending w) @ drop (Suc i) (pending w) \<rparr>"]
  by (simp add: resolve_def del: loadInitial.simps)

lemma pending_mount0:
  "pending (mount world0 0 ''NIFTY 50'') = [\<lparr> ld_hook = 0, ld_symbol = ''NIFTY 50'', ld_ws = 0 \<rparr>]"
  by (simp add: mount_def effect_def getWebSocket_def connect_def upd_hook_def world0_def
      hook0_def Let_def)

text \<open>
  Claim C6. A history response whose N rows are all structurally valid (finite
  numbers, a timestamp that parses), loaded successfully, leaves a line series and
  a candle series of length N in the hook; at every index the line point has the
  time of the candle and the candle's close as its value.
\<close>

theorem history_rows_aligned:
  assumes "i < length (pending w)" and "instrument_key hist = Some key" and "key \<noteq> []"
    and "list_all (spec_valid_row pn pd) (raw_candles hist)"
  shows "let k = hooks (resolve pn pd w i (HttpOk q) (HttpOk hist)) (ld_hook (pending w ! i));
             N = length (raw_candles hist)
         in length (candles k) = N \<and> length (ohlcCandles k) = N \<and>
            (\<forall>j<N. lp_t (candles k ! j) = cd_x (ohlcCandles k ! j) \<and>
                    lp_y (candles k ! j) = cd_c (ohlcCandles k ! j))"
proof -
  have "filter (row_kept pn pd) (raw_candles hist) = raw_candles hist"
    using assms(4) by (simp add: list_all_iff spec_valid_kept)
  then have len: "length (mapped pn pd (raw_candles hist)) = length (raw_candles hist)"
    by (simp add: length_mapped)
  show ?thesis
    using len mapped_all_aligned[of _ pn pd "raw_candles hist"]
    by (simp add: resolve_ok_hook[OF assms(1-3)] Let_def lineData_def candleData_def)
qed

theorem history_rows_aligned_witness:
  "0 < length (pending (mount world0 0 ''NIFTY 50''))
   \<and> instrument_key hist1 = Some ''NSE_INDEX|Nifty 50''
   \<and> list_all (spec_valid_row no_number no_date) (raw_candles hist1)
   \<and> candles (hooks (resolve no_number no_date (mount world0 0 ''NIFTY 50'') 0
                        (HttpOk None) (HttpOk hist1)) 0)
       = [\<lparr> lp_t = 1700000000000, lp_y = Fin 102 \<rparr>]
   \<and> ohlcCandles (hooks (resolve no_number no_date (mount world0 0 ''NIFTY 50'') 0
                            (HttpOk None) (HttpOk hist1)) 0)
       = [\<lparr> cd_x = 1700000000000, cd_o = Fin 100, cd_h = Fin 105, cd_l = Fin 98, cd_c = Fin 102 \<rparr>]"
  using history_rows_aligned[of 0 "mount world0 0 ''NIFTY 50''" hist1 "''NSE_INDEX|Nifty 50''"
      no_number no_date None]
  by (simp add: pending_mount0 hist1_def spec_valid_row_def elem_def isFinite_def TimeClip_def
      resolve_def lineData_def candleData_def mapped_def isNaN_def Let_def upd_hook_def
      subscribe_def ws_send_def add_open_listener_def add_message_listener_def upd_socket_def)

section \<open>The bounded line series\<close>





section \<open>Malformed rows\<close>

text \<open>
  Claim C7, as the code has it. A successful load does not fail on malformed
  rows: \<open>error\<close> stays as it was and \<open>loading\<close> ends false. The rows dropped
  are those that are not arrays, whose timestamp does not parse, or one of whose
  open, high, low and close converts to NaN; every other row, also one with an
  infinite value, is returned, in order, as the line point and the candle that
  the mapping gives for it. The hook state holds no count of dropped rows.
\<close>

theorem malformed_rows_dropped:
  assumes "i < length (pending w)" and "instrument_key hist = Some key" and "key \<noteq> []"
  shows "let h = ld_hook (pending w ! i);
             k' = hooks (resolve pn pd w i (HttpOk q) (HttpOk hist)) h;
             kept = filter (row_kept pn pd) (raw_candles hist)
         in error k' = error (hooks w h) \<and> loading k' = False
            \<and> length (candles k') = length kept \<and> length (ohlcCandles k') = length kept
            \<and> (\<forall>j<length kept.
                  mapRow pn pd (kept ! j) = Some \<lparr> line = candles k' ! j, candle = ohlcCandles k' ! j \<rparr>)"
  using mapped_nth[of _ pn pd "raw_candles hist"]
  by (simp add: resolve_ok_hook[OF assms] Let_def lineData_def candleData_def length_mapped)

text \<open>Of the five rows of \<open>hist_mixed\<close> the first and the last are returned.\<close>

theorem malformed_rows_dropped_witness:
  "0 < length (pending (mount world0 0 ''RELIANCE''))
   \<and> filter (row_kept no_number no_date) (raw_candles hist_mixed)
       = [raw_candles hist_mixed ! 0, raw_candles hist_mixed ! 4]
   \<and> error (hooks (resolve no_number no_date (mount world0 0 ''RELIANCE'') 0
                            (HttpOk None) (HttpOk hist_mixed)) 0) = None
   \<and> ohlcCandles (hooks (resolve no_number no_date (mount world0 0 ''RELIANCE'') 0
                            (HttpOk None) (HttpOk hist_mixed)) 0)
       = [\<lparr> cd_x = 1700000000000, cd_o = Fin 100, cd_h = Fin 105, cd_l = Fin 98, cd_c = Fin 102 \<rparr>,
          \<lparr> cd_x = 1700000120000, cd_o = Fin 102, cd_h = Fin 107, cd_l = Fin 101, cd_c = Fin 106 \<rparr>]"
  using malformed_rows_dropped[of 0 "mount world0 0 ''RELIANCE''" hist_mixed "''NSE_EQ|INE002A01018''"
      no_number no_date None]
  by (simp add: hist_mixed_def row_kept_def no_number_def no_date_def eval_defs)

text \<open>
  A row with an infinite high is not structurally valid in the sense of the
  specification, and the load returns it all the same.
\<close>

theorem infinite_row_is_kept:
  "\<not> spec_valid_row no_number no_date (hd (raw_candles hist_inf))
   \<and> ohlcCandles (hooks (resolve no_number no_date (mount world0 0 ''RELIANCE'') 0
                            (HttpOk None) (HttpOk hist_inf)) 0)
       = [\<lparr> cd_x = 1700000000000, cd_o = Fin 100, cd_h = PInf, cd_l = Fin 98, cd_c = Fin 102 \<rparr>]
   \<and> candles (hooks (resolve no_number no_date (mount world0 0 ''RELIANCE'') 0
                            (HttpOk None) (HttpOk hist_inf)) 0)
       = [\<lparr> lp_t = 1700000000000, lp_y = Fin 102 \<rparr>]"
  by (simp add: hist_inf_def spec_valid_row_def isFinite_def eval_defs)

section \<open>Failed loads\<close>

lemma resolve_unfold:
  "i < length (pending w) \<Longrightarrow>
   resolve pn pd w i qRes hRes
   = loadInitial pn pd (pending w ! i) qRes hRes
       (w \<lparr> pending := take i (pending w) @ drop (Suc i) (pending w) \<rparr>)"
  by (simp add: resolve_def)

text \<open>
  Claim C3, as the code has it. Both fetches are awaited together. When the quote
  response is not ok, the load ends with the error that carries the symbol, the
  status and the body, \<open>loading\<close> false and nothing else changed: the history
  that arrived is discarded. When the quote response is ok and the history
  response is not, the load ends with the corresponding error and \<open>loading\<close>
  false, and the quote of this load is stored. In both cases no frame is sent and
  no listener is added.
\<close>

theorem failed_fetch_outcome:
  assumes "i < length (pending w)"
  shows "let ld = pending w ! i; h = ld_hook ld;
             wq = resolve pn pd w i (HttpError st body) (HttpOk hist);
             wh = resolve pn pd w i (HttpOk q) (HttpError st body)
         in hooks wq h = (hooks w h) \<lparr> error := Some (QuoteFetchFailed (ld_symbol ld) st body),
                                       loading := False \<rparr>
            \<and> hooks wh h = (hooks w h) \<lparr> quote := q,
                                         error := Some (HistoryFetchFailed (ld_symbol ld) st body),
                                         loading := False \<rparr>
            \<and> sent wq = sent w \<and> sockets wq = sockets w
            \<and> sent wh = sent w \<and> sockets wh = sockets w"
  using assms by (simp add: resolve_unfold Let_def load_failed_def upd_hook_def)

theorem failed_fetch_outcome_witness:
  "0 < length (pending (mount world0 0 ''NIFTY 50''))
   \<and> hooks (resolve no_number no_date (mount world0 0 ''NIFTY 50'') 0
              (HttpError 404 ''Not Found'') (HttpOk hist1)) 0
       = hook0 \<lparr> symbol := ''NIFTY 50'',
                 error := Some (QuoteFetchFailed ''NIFTY 50'' 404 ''Not Found''), loading := False \<rparr>
   \<and> hooks (resolve no_number no_date (mount world0 0 ''NIFTY 50'') 0
              (HttpOk (Some quote1)) (HttpError 404 ''Not Found'')) 0
       = hook0 \<lparr> symbol := ''NIFTY 50'', quote := Some quote1,
                 error := Some (HistoryFetchFailed ''NIFTY 50'' 404 ''Not Found''), loading := False \<rparr>"
  using failed_fetch_outcome[of 0 "mount world0 0 ''NIFTY 50''" no_number no_date 404 "''Not Found''"
      hist1 "Some quote1"]
  by (simp add: eval_defs)

text \<open>
  The quote fetch succeeds and the history fetch answers 500: the hook ends with
  the error, an empty series, and the quote of the failed load.
\<close>

theorem quote_kept_when_history_fails:
  "quote (hooks (mount world0 0 ''NIFTY 50'') 0) = None
   \<and> quote (hooks (resolve no_number no_date (mount world0 0 ''NIFTY 50'') 0
                     (HttpOk (Some quote1)) (HttpError 500 ''Internal Server Error'')) 0)
       = Some quote1
   \<and> error (hooks (resolve no_number no_date (mount world0 0 ''NIFTY 50'') 0
                     (HttpOk (Some quote1)) (HttpError 500 ''Internal Server Error'')) 0)
       = Some (HistoryFetchFailed ''NIFTY 50'' 500 ''Internal Server Error'')
   \<and> candles (hooks (resolve no_number no_date (mount world0 0 ''NIFTY 50'') 0
                     (HttpOk (Some quote1)) (HttpError 500 ''Internal Server Error'')) 0) = []"
  by (simp add: eval_defs)

section \<open>Loads that resolve after a symbol switch\<close>

text \<open>
  Claim C2, as the code has it. A load carries no token. When a load started for
  one symbol resolves successfully after its hook has been rendered with another
  symbol, its result is applied all the same: quote, line series, candle series
  and the subscription key of the hook become those of the late response; the
  error is left as it is.
\<close>

theorem late_load_is_applied:
  assumes "i < length (pending w)" and "instrument_key hist = Some key" and "key \<noteq> []"
    and "ld_symbol (pending w ! i) \<noteq> symbol (hooks w (ld_hook (pending w ! i)))"
  shows "let h = ld_hook (pending w ! i);
             k' = hooks (resolve pn pd w i (HttpOk q) (HttpOk hist)) h
         in symbol k' = symbol (hooks w h)
            \<and> quote k' = q
            \<and> candles k' = lineData pn pd (raw_candles hist)
            \<and> ohlcCandles k' = candleData pn pd (raw_candles hist)
            \<and> instrumentKeyRef k' = Some key
            \<and> error k' = error (hooks w h)"
  by (simp add: resolve_ok_hook[OF assms(1-3)] Let_def)

theorem late_load_is_applied_witness:
  "0 < length (pending switched)
   \<and> instrument_key histA = Some ''NSE_EQ|INE002A01018''
   \<and> ld_symbol (pending switched ! 0) = ''RELIANCE''
   \<and> symbol (hooks switched (ld_hook (pending switched ! 0))) = ''NIFTY 50''
   \<and> quote (hooks (resolve no_number no_date switched 0 (HttpOk (Some quoteA)) (HttpOk histA)) 0)
       = Some quoteA
   \<and> instrumentKeyRef (hooks (resolve no_number no_date switched 0 (HttpOk (Some quoteA))
                                 (HttpOk histA)) 0)
       = Some ''NSE_EQ|INE002A01018''"
  using late_load_is_applied[of 0 switched histA "''NSE_EQ|INE002A01018''" no_number no_date
      "Some quoteA"]
  by (simp add: switched_eval histA_def eval_defs)

text \<open>
  The chart bound to NIFTY 50 holds the NIFTY 50 quote, key and candles; after the
  RELIANCE load resolves it is still bound to NIFTY 50 and holds the RELIANCE
  quote, key and candles.
\<close>

theorem stale_load_overwrites:
  "symbol (hooks switched 0) = ''NIFTY 50''
   \<and> map ld_symbol (pending switched) = [''RELIANCE'']
   \<and> quote (hooks switched 0) = Some quote1
   \<and> instrumentKeyRef (hooks switched 0) = Some ''NSE_INDEX|Nifty 50''
   \<and> ohlcCandles (hooks switched 0)
       = [\<lparr> cd_x = 1700000000000, cd_o = Fin 100, cd_h = Fin 105, cd_l = Fin 98, cd_c = Fin 102 \<rparr>]
   \<and> symbol (hooks stale_applied 0) = ''NIFTY 50''
   \<and> quote (hooks stale_applied 0) = Some quoteA
   \<and> instrumentKeyRef (hooks stale_applied 0) = Some ''NSE_EQ|INE002A01018''
   \<and> candles (hooks stale_applied 0) = [\<lparr> lp_t = 1700000000000, lp_y = Fin 2500 \<rparr>]
   \<and> ohlcCandles (hooks stale_applied 0)
       = [\<lparr> cd_x = 1700000000000, cd_o = Fin 2490, cd_h = Fin 2510, cd_l = Fin 2480,
            cd_c = Fin 2500 \<rparr>]"
  by (simp add: stale_applied_def switched_eval histA_def eval_defs)

section \<open>Applying a tick\<close>

lemma tick_ltp_found:
  assumes "msg_type d = ''live_feed''" and "feeds d = Some fs"
    and "fs (normalizedKey cl) = Some (Feed (CNum ltp))
         \<or> (fs (normalizedKey cl) = None \<and> fs (currentKey cl) = Some (Feed (CNum ltp)))"
    and "ltp \<noteq> NaN" and "ltp \<noteq> Fin 0"
  shows "tick_ltp pn cl d = Some ltp"
  using assms by (auto simp: tick_ltp_def lookup_feed_def truthy_num_def isNaN_def)

lemma max_min_fin:
  "Math_max (Fin a) (Fin b) = Fin (max a b)" "Math_min (Fin a) (Fin b) = Fin (min a b)"
  by (auto simp: Math_max_def Math_min_def)

lemma setOhlc_last:
  "xs \<noteq> [] \<Longrightarrow>
     length (setOhlcCandles_tick ltp xs) = length xs
     \<and> butlast (setOhlcCandles_tick ltp xs) = butlast xs
     \<and> last (setOhlcCandles_tick ltp xs) = (last xs)
          \<lparr> cd_c := ltp, cd_h := Math_max (cd_h (last xs)) ltp,
            cd_l := Math_min (cd_l (last xs)) ltp \<rparr>"
  by (induction xs rule: rev_induct) (simp_all add: setOhlcCandles_tick_def Let_def)

text \<open>
  Claim C4, as the code has it. Let a live frame carry a numeric last-traded price
  \<open>ltp\<close> other than zero for the handler's key, under the normalized form or,
  when the frame has no entry under the normalized form, under the raw form, and
  let the tick time be a valid date. Then the handler applies the tick, and the
  state after it has: a quote whose \<open>last_price\<close> is \<open>ltp\<close> and whose
  timestamp is the tick time, with \<open>net_change\<close> equal to \<open>ltp\<close> less the
  open price when the quote had an open price other than zero, and unchanged
  when it had none or it was zero; a candle series that stays empty if it was
  empty and otherwise differs only in its last candle, which keeps its time and
  open, has close \<open>ltp\<close>, as high the larger of the old high and \<open>ltp\<close> and
  as low the smaller of the old low and \<open>ltp\<close>; and a line series extended by
  the point of the tick, cut to its last 2000 points.
\<close>

theorem tick_postcondition:
  assumes "msg_type d = ''live_feed''" and "feeds d = Some fs"
    and "fs (normalizedKey cl) = Some (Feed (CNum ltp))
         \<or> (fs (normalizedKey cl) = None \<and> fs (currentKey cl) = Some (Feed (CNum ltp)))"
    and "ltp \<noteq> NaN" and "ltp \<noteq> Fin 0"
    and "tick_time pd d now = Some ts"
  shows "\<exists>k' q'. onMessage pn pd cl (Some d) now k = Inr k'
     \<and> quote k' = Some q' \<and> last_price q' = Some ltp \<and> timestamp q' = Some (TickStamp ts)
     \<and> (\<forall>p opn. quote k = Some p \<and> ohlc_open p = Some opn \<and> opn \<noteq> NaN \<and> opn \<noteq> Fin 0
           \<longrightarrow> net_change q' = Some (js_sub ltp opn))
     \<and> (\<forall>p a b. quote k = Some p \<and> ohlc_open p = Some (Fin a) \<and> a \<noteq> 0 \<and> ltp = Fin b
           \<longrightarrow> net_change q' = Some (Fin (b - a)))
     \<and> (\<forall>p. quote k = Some p
             \<and> (ohlc_open p = None \<or> ohlc_open p = Some (Fin 0) \<or> ohlc_open p = Some NaN)
           \<longrightarrow> net_change q' = net_change p)
     \<and> (ohlcCandles k = [] \<longrightarrow> ohlcCandles k' = [])
     \<and> (ohlcCandles k \<noteq> [] \<longrightarrow>
          length (ohlcCandles k') = length (ohlcCandles k)
          \<and> butlast (ohlcCandles k') = butlast (ohlcCandles k)
          \<and> cd_x (last (ohlcCandles k')) = cd_x (last (ohlcCandles k))
          \<and> cd_o (last (ohlcCandles k')) = cd_o (last (ohlcCandles k))
          \<and> cd_c (last (ohlcCandles k')) = ltp
          \<and> (\<forall>a b. cd_h (last (ohlcCandles k)) = Fin a \<and> ltp = Fin b
                \<longrightarrow> cd_h (last (ohlcCandles k')) = Fin (max a b))
          \<and> (\<forall>a b. cd_l (last (ohlcCandles k)) = Fin a \<and> ltp = Fin b
                \<longrightarrow> cd_l (last (ohlcCandles k')) = Fin (min a b))
          \<and> (cd_h (last (ohlcCandles k)) \<noteq> NaN \<longrightarrow>
                (cd_h (last (ohlcCandles k')) = cd_h (last (ohlcCandles k))
                   \<or> cd_h (last (ohlcCandles k')) = ltp)
                \<and> \<not> js_less (cd_h (last (ohlcCandles k'))) (cd_h (last (ohlcCandles k)))
                \<and> \<not> js_less (cd_h (last (ohlcCandles k'))) ltp)
          \<and> (cd_l (last (ohlcCandles k)) \<noteq> NaN \<longrightarrow>
                (cd_l (last (ohlcCandles k')) = cd_l (last (ohlcCandles k))
                   \<or> cd_l (last (ohlcCandles k')) = ltp)
                \<and> \<not> js_less (cd_l (last (ohlcCandles k))) (cd_l (last (ohlcCandles k')))
                \<and> \<not> js_less ltp (cd_l (last (ohlcCandles k')))))
     \<and> candles k' = slice_last 2000 (candles k @ [\<lparr> lp_t = ts, lp_y = ltp \<rparr>])"
proof -
  have found: "tick_ltp pn cl d = Some ltp"
    using assms(1-5) by (rule tick_ltp_found)
  define k' where "k' = k \<lparr> quote := setQuote_tick ltp ts (quote k),
                            candles := setCandles_tick ltp ts (candles k),
                            ohlcCandles := setOhlcCandles_tick ltp (ohlcCandles k) \<rparr>"
  have run: "onMessage pn pd cl (Some d) now k = Inr k'"
    using found assms(6) by (simp add: onMessage_def k'_def)
  obtain q' where q': "setQuote_tick ltp ts (quote k) = Some q'"
    by (simp add: setQuote_tick_def)
  have q1: "last_price q' = Some ltp" "timestamp q' = Some (TickStamp ts)"
    using q' by (cases "quote k"; auto simp: setQuote_tick_def)+
  have q2: "net_change q' = Some (js_sub ltp opn)"
    if "quote k = Some p" "ohlc_open p = Some opn" "opn \<noteq> NaN" "opn \<noteq> Fin 0" for p opn
    using q' that by (auto simp: setQuote_tick_def truthy_num_def)
  have q3: "net_change q' = Some (Fin (b - a))"
    if "quote k = Some p" "ohlc_open p = Some (Fin a)" "a \<noteq> 0" "ltp = Fin b" for p a b
    using q2[of p "Fin a"] that by (simp add: js_sub_def)
  have q4: "net_change q' = net_change p"
    if "quote k = Some p"
       "ohlc_open p = None \<or> ohlc_open p = Some (Fin 0) \<or> ohlc_open p = Some NaN" for p
    using q' that by (auto simp: setQuote_tick_def truthy_num_def)
  have e: "ohlcCandles k = [] \<Longrightarrow> ohlcCandles k' = []"
    by (simp add: k'_def setOhlcCandles_tick_def)
  have ltp_nn: "ltp \<noteq> NaN" by (rule assms(4))
  have hi: "(Math_max h ltp = h \<or> Math_max h ltp = ltp)
            \<and> \<not> js_less (Math_max h ltp) h \<and> \<not> js_less (Math_max h ltp) ltp" if "h \<noteq> NaN" for h
    using that ltp_nn by (cases h; cases ltp) (auto simp: Math_max_def)
  have lo: "(Math_min l ltp = l \<or> Math_min l ltp = ltp)
            \<and> \<not> js_less l (Math_min l ltp) \<and> \<not> js_less ltp (Math_min l ltp)" if "l \<noteq> NaN" for l
    using that ltp_nn by (cases l; cases ltp) (auto simp: Math_min_def)
  have c: "ohlcCandles k \<noteq> [] \<longrightarrow>
          length (ohlcCandles k') = length (ohlcCandles k)
          \<and> butlast (ohlcCandles k') = butlast (ohlcCandles k)
          \<and> cd_x (last (ohlcCandles k')) = cd_x (last (ohlcCandles k))
          \<and> cd_o (last (ohlcCandles k')) = cd_o (last (ohlcCandles k))
          \<and> cd_c (last (ohlcCandles k')) = ltp
          \<and> (\<forall>a b. cd_h (last (ohlcCandles k)) = Fin a \<and> ltp = Fin b
                \<longrightarrow> cd_h (last (ohlcCandles k')) = Fin (max a b))
          \<and> (\<forall>a b. cd_l (last (ohlcCandles k)) = Fin a \<and> ltp = Fin b
                \<longrightarrow> cd_l (last (ohlcCandles k')) = Fin (min a b))
          \<and> (cd_h (last (ohlcCandles k)) \<noteq> NaN \<longrightarrow>
                (cd_h (last (ohlcCandles k')) = cd_h (last (ohlcCandles k))
                   \<or> cd_h (last (ohlcCandles k')) = ltp)
                \<and> \<not> js_less (cd_h (last (ohlcCandles k'))) (cd_h (last (ohlcCandles k)))
                \<and> \<not> js_less (cd_h (last (ohlcCandles k'))) ltp)
          \<and> (cd_l (last (ohlcCandles k)) \<noteq> NaN \<longrightarrow>
                (cd_l (last (ohlcCandles k')) = cd_l (last (ohlcCandles k))
                   \<or> cd_l (last (ohlcCandles k')) = ltp)
                \<and> \<not> js_less (cd_l (last (ohlcCandles k))) (cd_l (last (ohlcCandles k')))
                \<and> \<not> js_less ltp (cd_l (last (ohlcCandles k'))))"
  proof (rule impI)
    assume ne: "ohlcCandles k \<noteq> []"
    note L = setOhlc_last[OF ne, of ltp]
    have ok: "ohlcCandles k' = setOhlcCandles_tick ltp (ohlcCandles k)" by (simp add: k'_def)
    have h': "cd_h (last (ohlcCandles k')) = Math_max (cd_h (last (ohlcCandles k))) ltp"
      and l': "cd_l (last (ohlcCandles k')) = Math_min (cd_l (last (ohlcCandles k))) ltp"
      and r': "cd_x (last (ohlcCandles k')) = cd_x (last (ohlcCandles k))"
              "cd_o (last (ohlcCandles k')) = cd_o (last (ohlcCandles k))"
              "cd_c (last (ohlcCandles k')) = ltp"
              "length (ohlcCandles k') = length (ohlcCandles k)"
              "butlast (ohlcCandles k') = butlast (ohlcCandles k)"
      using L by (simp_all add: ok)
    have mx: "cd_h (last (ohlcCandles k')) = Fin (max a b)"
      if "cd_h (last (ohlcCandles k)) = Fin a" "ltp = Fin b" for a b
      using that h' by (simp add: max_min_fin)
    have mn: "cd_l (last (ohlcCandles k')) = Fin (min a b)"
      if "cd_l (last (ohlcCandles k)) = Fin a" "ltp = Fin b" for a b
      using that l' by (simp add: max_min_fin)
    have c1: "\<forall>a b. cd_h (last (ohlcCandles k)) = Fin a \<and> ltp = Fin b
                \<longrightarrow> cd_h (last (ohlcCandles k')) = Fin (max a b)"
      using mx by blast
    have c2: "\<forall>a b. cd_l (last (ohlcCandles k)) = Fin a \<and> ltp = Fin b
                \<longrightarrow> cd_l (last (ohlcCandles k')) = Fin (min a b)"
      using mn by blast
    have c3: "cd_h (last (ohlcCandles k)) \<noteq> NaN \<longrightarrow>
                (cd_h (last (ohlcCandles k')) = cd_h (last (ohlcCandles k))
                   \<or> cd_h (last (ohlcCandles k')) = ltp)
                \<and> \<not> js_less (cd_h (last (ohlcCandles k'))) (cd_h (last (ohlcCandles k)))
                \<and> \<not> js_less (cd_h (last (ohlcCandles k'))) ltp"
      using hi[of "cd_h (last (ohlcCandles k))"] by (simp add: h')
    have c4: "cd_l (last (ohlcCandles k)) \<noteq> NaN \<longrightarrow>
                (cd_l (last (ohlcCandles k')) = cd_l (last (ohlcCandles k))
                   \<or> cd_l (last (ohlcCandles k')) = ltp)
                \<and> \<not> js_less (cd_l (last (ohlcCandles k))) (cd_l (last (ohlcCandles k')))
                \<and> \<not> js_less ltp (cd_l (last (ohlcCandles k')))"
      using lo[of "cd_l (last (ohlcCandles k))"] by (simp add: l')
    show "length (ohlcCandles k') = length (ohlcCandles k)
          \<and> butlast (ohlcCandles k') = butlast (ohlcCandles k)
          \<and> cd_x (last (ohlcCandles k')) = cd_x (last (ohlcCandles k))
          \<and> cd_o (last (ohlcCandles k')) = cd_o (last (ohlcCandles k))
          \<and> cd_c (last (ohlcCandles k')) = ltp
          \<and> (\<forall>a b. cd_h (last (ohlcCandles k)) = Fin a \<and> ltp = Fin b
                \<longrightarrow> cd_h (last (ohlcCandles k')) = Fin (max a b))
          \<and> (\<forall>a b. cd_l (last (ohlcCandles k)) = Fin a \<and> ltp = Fin b
                \<longrightarrow> cd_l (last (ohlcCandles k')) = Fin (min a b))
          \<and> (cd_h (last (ohlcCandles k)) \<noteq> NaN \<longrightarrow>
                (cd_h (last (ohlcCandles k')) = cd_h (last (ohlcCandles k))
                   \<or> cd_h (last (ohlcCandles k')) = ltp)
                \<and> \<not> js_less (cd_h (last (ohlcCandles k'))) (cd_h (last (ohlcCandles k)))
                \<and> \<not> js_less (cd_h (last (ohlcCandles k'))) ltp)
          \<and> (cd_l (last (ohlcCandles k)) \<noteq> NaN \<longrightarrow>
                (cd_l (last (ohlcCandles k')) = cd_l (last (ohlcCandles k))
                   \<or> cd_l (last (ohlcCandles k')) = ltp)
                \<and> \<not> js_less (cd_l (last (ohlcCandles k))) (cd_l (last (ohlcCandles k')))
                \<and> \<not> js_less ltp (cd_l (last (ohlcCandles k'))))"
      by (intro conjI) (rule r' c1 c2 c3 c4)+
  qed
  have l: "candles k' = slice_last 2000 (candles k @ [\<lparr> lp_t = ts, lp_y = ltp \<rparr>])"
    by (simp add: k'_def setCandles_tick_def)
  have qk: "quote k' = Some q'" using q' by (simp add: k'_def)
  have n1: "\<forall>p opn. quote k = Some p \<and> ohlc_open p = Some opn \<and> opn \<noteq> NaN \<and> opn \<noteq> Fin 0
           \<longrightarrow> net_change q' = Some (js_sub ltp opn)"
    using q2 by blast
  have n2: "\<forall>p a b. quote k = Some p \<and> ohlc_open p = Some (Fin a) \<and> a \<noteq> 0 \<and> ltp = Fin b
           \<longrightarrow> net_change q' = Some (Fin (b - a))"
    using q3 by blast
  have n3: "\<forall>p. quote k = Some p
             \<and> (ohlc_open p = None \<or> ohlc_open p = Some (Fin 0) \<or> ohlc_open p = Some NaN)
           \<longrightarrow> net_change q' = net_change p"
    using q4 by blast
  have e': "ohlcCandles k = [] \<longrightarrow> ohlcCandles k' = []" using e by blast
  show ?thesis
    apply (rule exI[of _ k'])
    apply (rule exI[of _ q'])
    apply (intro conjI)
    apply (rule run qk q1 n1 n2 n3 e' c l)+
    done
qed

lemmas tick_defs = onMessage_def tick_ltp_def lookup_feed_def truthy_num_def isNaN_def
  tick_time_def TimeClip_def setQuote_tick_def js_sub_def setCandles_tick_def slice_last_def
  setOhlcCandles_tick_def Math_max_def Math_min_def Let_def

text \<open>
  After the history \<open>[[1700000000000,100,105,98,102]]\<close>: a tick with price 103
  under the normalized key makes the last candle \<open>{o:100, h:105, l:98, c:103}\<close>,
  the quote's last price 103 and adds one point of value 103 to the line series;
  a tick with price 110 under the raw key only raises the high to 110; a tick
  with price 90 lowers the low to 90.
\<close>

theorem tick_postcondition_witness:
  "hooks (ws_message no_number no_date loaded1 0 (Some tick1) 1700000061000) 0
     = (hooks loaded1 0)
         \<lparr> quote := Some (quote1 \<lparr> last_price := Some (Fin 103), net_change := Some (Fin 3),
                                   timestamp := Some (TickStamp 1700000060000) \<rparr>),
           candles := [\<lparr> lp_t = 1700000000000, lp_y = Fin 102 \<rparr>,
                       \<lparr> lp_t = 1700000060000, lp_y = Fin 103 \<rparr>],
           ohlcCandles := [\<lparr> cd_x = 1700000000000, cd_o = Fin 100, cd_h = Fin 105, cd_l = Fin 98,
                             cd_c = Fin 103 \<rparr>] \<rparr>
   \<and> onMessage no_number no_date closure1 (Some tick_raw) 1700000061000 (hooks loaded1 0)
     = Inr ((hooks loaded1 0)
         \<lparr> quote := Some (quote1 \<lparr> last_price := Some (Fin 110), net_change := Some (Fin 10),
                                   timestamp := Some (TickStamp 1700000061000) \<rparr>),
           candles := [\<lparr> lp_t = 1700000000000, lp_y = Fin 102 \<rparr>,
                       \<lparr> lp_t = 1700000061000, lp_y = Fin 110 \<rparr>],
           ohlcCandles := [\<lparr> cd_x = 1700000000000, cd_o = Fin 100, cd_h = Fin 110, cd_l = Fin 98,
                             cd_c = Fin 110 \<rparr>] \<rparr>)
   \<and> onMessage no_number no_date closure1 (Some tick_low) 1700000061000 (hooks loaded1 0)
     = Inr ((hooks loaded1 0)
         \<lparr> quote := Some (quote1 \<lparr> last_price := Some (Fin 90), net_change := Some (Fin (- 10)),
                                   timestamp := Some (TickStamp 1700000060000) \<rparr>),
           candles := [\<lparr> lp_t = 1700000000000, lp_y = Fin 102 \<rparr>,
                       \<lparr> lp_t = 1700000060000, lp_y = Fin 90 \<rparr>],
           ohlcCandles := [\<lparr> cd_x = 1700000000000, cd_o = Fin 100, cd_h = Fin 105, cd_l = Fin 90,
                             cd_c = Fin 90 \<rparr>] \<rparr>)"
  using tick_postcondition[of tick1 "[''NSE_INDEX:Nifty 50'' \<mapsto> Feed (CNum (Fin 103))]" closure1
        "Fin 103" no_date 1700000061000 1700000060000 no_number "hooks loaded1 0"]
    tick_postcondition[of tick_raw "[''NSE_INDEX|Nifty 50'' \<mapsto> Feed (CNum (Fin 110))]" closure1
        "Fin 110" no_date 1700000061000 1700000061000 no_number "hooks loaded1 0"]
    tick_postcondition[of tick_low "[''NSE_INDEX:Nifty 50'' \<mapsto> Feed (CNum (Fin 90))]" closure1
        "Fin 90" no_date 1700000061000 1700000060000 no_number "hooks loaded1 0"]
  by (simp add: loaded1_eval ws_message_def deliver_def upd_hook_def closure1_def tick1_def
      tick_raw_def tick_low_def quote1_def tick_defs)

text \<open>
  A tick whose price is 0 is found under the key and changes nothing; with an
  open price of 0 the net change is left as it was; with a tick time beyond the
  range of dates the updater throws and nothing is applied.
\<close>

theorem zero_price_tick_ignored:
  "feeds tick_zero = Some [''NSE_INDEX:Nifty 50'' \<mapsto> Feed (CNum (Fin 0))]
   \<and> normalizedKey closure1 = ''NSE_INDEX:Nifty 50''
   \<and> last_price quote1 = Some (Fin 102)
   \<and> onMessage no_number no_date closure1 (Some tick_zero) 1700000061000 (hooks loaded1 0)
       = Inr (hooks loaded1 0)
   \<and> hooks (ws_message no_number no_date loaded1 0 (Some tick_zero) 1700000061000) 0
       = hooks loaded1 0
   \<and> quote (hooks (ws_message no_number no_date loaded1 0 (Some tick_zero) 1700000061000) 0)
       = Some quote1
   \<and> ohlc_open quote_open0 = Some (Fin 0) \<and> net_change quote_open0 = Some (Fin 2)
   \<and> onMessage no_number no_date closure1 (Some tick1) 1700000061000
         ((hooks loaded1 0) \<lparr> quote := Some quote_open0 \<rparr>)
       = Inr ((hooks loaded1 0)
           \<lparr> quote := Some (quote_open0 \<lparr> last_price := Some (Fin 103),
                                           timestamp := Some (TickStamp 1700000060000) \<rparr>),
             candles := [\<lparr> lp_t = 1700000000000, lp_y = Fin 102 \<rparr>,
                         \<lparr> lp_t = 1700000060000, lp_y = Fin 103 \<rparr>],
             ohlcCandles := [\<lparr> cd_x = 1700000000000, cd_o = Fin 100, cd_h = Fin 105,
                               cd_l = Fin 98, cd_c = Fin 103 \<rparr>] \<rparr>)
   \<and> onMessage no_number no_date closure1 (Some tick_late) 1700000061000 (hooks loaded1 0)
       = Inl RangeError
   \<and> hooks (ws_message no_number no_date loaded1 0 (Some tick_late) 1700000061000) 0
       = hooks loaded1 0
   \<and> render_errors (ws_message no_number no_date loaded1 0 (Some tick_late) 1700000061000)
       = [(0, RangeError)]"
  by (simp add: loaded1_eval ws_message_def deliver_def upd_hook_def closure1_def tick1_def
      tick_zero_def tick_late_def quote1_def quote_open0_def tick_defs)

section \<open>Ticks and the other sessions\<close>





lemma listens_only_connect: "listens_only j J w \<Longrightarrow> listens_only j J (snd (connect w))"
  by (auto simp: listens_only_def connect_def new_socket_def)

lemma sockets_getWebSocket:
  "listens_only j J w \<Longrightarrow> listens_only j J (snd (getWebSocket w))"
  by (auto simp: getWebSocket_def listens_only_connect split: option.splits)

lemma hooks_getWebSocket: "hooks (snd (getWebSocket w)) = hooks w"
  by (auto simp: getWebSocket_def connect_def split: option.splits)








































text \<open>
  Why the keys are taken with at most one pipe: with two pipes the two forms
  overlap. The keys \<open>NSE_EQ|ABC|1\<close> and \<open>NSE_EQ:ABC|1\<close> differ after
  normalization, and a frame that carries only the second changes the session on
  the first.
\<close>

lemma two_pipe_keys_overlap:
  "instrumentKeyRef (hooks two_sessions 0) = Some ''NSE_EQ:ABC|1''
   \<and> instrumentKeyRef (hooks two_sessions 1) = Some ''NSE_EQ|ABC|1''
   \<and> normalize_key ''NSE_EQ|ABC|1'' \<noteq> normalize_key ''NSE_EQ:ABC|1''
   \<and> ohlcCandles (hooks two_sessions 1)
       = [\<lparr> cd_x = 1700000000000, cd_o = Fin 2490, cd_h = Fin 2510, cd_l = Fin 2480,
            cd_c = Fin 2500 \<rparr>]
   \<and> ohlcCandles (hooks (ws_message no_number no_date two_sessions 0 (Some tickK) 1700000061000) 1)
       = [\<lparr> cd_x = 1700000000000, cd_o = Fin 2490, cd_h = Fin 2510, cd_l = Fin 103,
            cd_c = Fin 103 \<rparr>]"
  by (simp add: two_sessions_eval ws_message_def deliver_def upd_hook_def tickK_def quoteA_def
      quote1_def normalize_key_def tick_defs)

section \<open>The shared socket\<close>

lemma getWebSocket_open:
  "wsSingleton w = Some c \<Longrightarrow> readyState (sockets w ! c) = OPEN \<Longrightarrow> getWebSocket w = (c, w)"
  by (simp add: getWebSocket_def)

lemma getWebSocket_none:
  "wsSingleton w = None \<Longrightarrow>
   getWebSocket w = (length (sockets w),
     w \<lparr> sockets := sockets w @ [new_socket], wsSingleton := Some (length (sockets w)) \<rparr>)"
  by (simp add: getWebSocket_def connect_def)

lemma ws_close_clears:
  "c < length (sockets w) \<Longrightarrow> readyState (sockets w ! c) \<noteq> CLOSED \<Longrightarrow>
   wsSingleton (ws_close w c) = None"
  by (simp add: ws_close_def upd_socket_def)

text \<open>
  Claim C8. The shared socket is meant to be the only one. Here
  \<open>getWebSocket\<close> is called twice before the first socket has opened, as when
  two charts mount one after the other: the second call creates a second socket,
  both are connecting, and each chart's load holds a different one.
\<close>

theorem second_socket_while_connecting:
  "fst (getWebSocket world0) = 0
   \<and> fst (getWebSocket (snd (getWebSocket world0))) = 1
   \<and> map readyState (sockets (snd (getWebSocket (snd (getWebSocket world0)))))
       = [CONNECTING, CONNECTING]
   \<and> live_sockets (snd (getWebSocket (snd (getWebSocket world0)))) = 2
   \<and> live_sockets (mount (mount world0 0 ''NIFTY 50'') 1 ''RELIANCE'') = 2
   \<and> map ld_ws (pending (mount (mount world0 0 ''NIFTY 50'') 1 ''RELIANCE'')) = [0, 1]"
  by (simp add: eval_defs live_sockets_def)

section \<open>Subscribe and unsubscribe frames\<close>

lemma readyState_removeListeners:
  "c < length (sockets w) \<Longrightarrow>
   readyState (sockets (removeListeners a i w) ! c) = readyState (sockets w ! c)"
  by (cases "a = c") (simp_all add: removeListeners_def upd_socket_def)

lemma removeListeners_other:
  "length (sockets (removeListeners a i w)) = length (sockets w)"
  "wsSingleton (removeListeners a i w) = wsSingleton w"
  "sent (removeListeners a i w) = sent w"
  "hooks (removeListeners a i w) = hooks w"
  by (simp_all add: removeListeners_def upd_socket_def)

lemma acquire_open:
  assumes "wsSingleton w = Some c" "c < length (sockets w)" "readyState (sockets w ! c) = OPEN"
    and "symb \<noteq> []" "instrument_key hist = Some key" "key \<noteq> []"
  shows "sent (acquire pn pd symb q hist w h) = sent w @ [(c, Subscribe key)]"
    and "wsSingleton (acquire pn pd symb q hist w h) = Some c"
    and "length (sockets (acquire pn pd symb q hist w h)) = length (sockets w)"
    and "readyState (sockets (acquire pn pd symb q hist w h) ! c) = OPEN"
    and "instrumentKeyRef (hooks (acquire pn pd symb q hist w h) h) = Some key"
    and "symbol (hooks (acquire pn pd symb q hist w h) h) = symb"
    and "h' \<noteq> h \<Longrightarrow> hooks (acquire pn pd symb q hist w h) h' = hooks w h'"
  using assms
  by (simp_all add: acquire_def mount_def effect_def getWebSocket_def upd_hook_def hook0_def
      resolve_def Let_def subscribe_def ws_send_def add_message_listener_def upd_socket_def)

lemma unmount_open:
  assumes "wsSingleton w = Some c" "c < length (sockets w)" "readyState (sockets w ! c) = OPEN"
    and "instrumentKeyRef (hooks w h) = Some key" "key \<noteq> []" "symbol (hooks w h) \<noteq> []"
  shows "sent (unmount w h) = sent w @ [(c, Unsubscribe key)]"
    and "wsSingleton (unmount w h) = Some c"
    and "length (sockets (unmount w h)) = length (sockets w)"
    and "readyState (sockets (unmount w h) ! c) = OPEN"
    and "h' \<noteq> h \<Longrightarrow> hooks (unmount w h) h' = hooks w h'"
  using assms
  by (auto simp: unmount_def cleanup_def readyState_removeListeners removeListeners_other
      upd_hook_def ws_send_def Let_def split: option.splits)

lemma acquire_inv:
  assumes "open_inv c key H w" "symb \<noteq> []" "instrument_key hist = Some key" "key \<noteq> []"
  shows "open_inv c key (insert h H) (acquire pn pd symb q hist w h)"
proof -
  from assms(1) have o: "wsSingleton w = Some c" "c < length (sockets w)"
      "readyState (sockets w ! c) = OPEN"
    by (simp_all add: open_inv_def)
  note a = acquire_open[OF o assms(2-4)]
  have "instrumentKeyRef (hooks (acquire pn pd symb q hist w h) x) = Some key
        \<and> symbol (hooks (acquire pn pd symb q hist w h) x) \<noteq> []" if "x \<in> insert h H" for x
  proof (cases "x = h")
    case True
    then show ?thesis using a(5)[of pn pd q h] a(6)[of pn pd q h] assms(2) by simp
  next
    case False
    with that have "x \<in> H" by simp
    with assms(1) False a(7)[of x h pn pd q] show ?thesis by (simp add: open_inv_def)
  qed
  with a(2,3,4) o(2) show ?thesis by (simp add: open_inv_def)
qed

lemma unmount_inv:
  assumes "open_inv c key H w" "h \<in> H" "key \<noteq> []"
  shows "open_inv c key (H - {h}) (unmount w h)"
proof -
  from assms(1,2) have o: "wsSingleton w = Some c" "c < length (sockets w)"
      "readyState (sockets w ! c) = OPEN" "instrumentKeyRef (hooks w h) = Some key"
      "symbol (hooks w h) \<noteq> []"
    by (simp_all add: open_inv_def)
  note u = unmount_open[OF o(1-4) assms(3) o(5)]
  show ?thesis using u(2,3,4,5) o(2) assms(1) by (auto simp: open_inv_def)
qed

lemma run_ops_frames:
  assumes "symb \<noteq> []" "instrument_key hist = Some key" "key \<noteq> []"
  shows "open_inv c key H w \<Longrightarrow> lifecycle H ops \<Longrightarrow>
     int (subscribes key (run_ops pn pd symb q hist w ops))
       - int (unsubscribes key (run_ops pn pd symb q hist w ops))
     = int (subscribes key w) - int (unsubscribes key w) + refcount ops"
proof (induction ops arbitrary: w H)
  case Nil
  then show ?case by simp
next
  case (Cons op ops)
  show ?case
  proof (cases op)
    case (Acquire h)
    let ?w = "acquire pn pd symb q hist w h"
    have inv: "open_inv c key (insert h H) ?w"
      using Cons.prems(1) assms by (rule acquire_inv)
    have life: "lifecycle (insert h H) ops" using Cons.prems(2) Acquire by simp
    have s: "sent ?w = sent w @ [(c, Subscribe key)]"
      using Cons.prems(1) assms by (intro acquire_open(1)) (simp_all add: open_inv_def)
    have "int (subscribes key ?w) - int (unsubscribes key ?w)
          = int (subscribes key w) - int (unsubscribes key w) + 1"
      by (simp add: subscribes_def unsubscribes_def s)
    with Cons.IH[OF inv life] Acquire show ?thesis by simp
  next
    case (Release h)
    let ?w = "unmount w h"
    have hH: "h \<in> H" using Cons.prems(2) Release by simp
    have inv: "open_inv c key (H - {h}) ?w"
      using Cons.prems(1) hH assms(3) by (rule unmount_inv)
    have life: "lifecycle (H - {h}) ops" using Cons.prems(2) Release by simp
    have s: "sent ?w = sent w @ [(c, Unsubscribe key)]"
      using Cons.prems(1) hH assms(3) by (intro unmount_open(1)) (simp_all add: open_inv_def)
    have "int (subscribes key ?w) - int (unsubscribes key ?w)
          = int (subscribes key w) - int (unsubscribes key w) - 1"
      by (simp add: subscribes_def unsubscribes_def s)
    with Cons.IH[OF inv life] Release show ?thesis by simp
  qed
qed

text \<open>
  Claim C1, as the code has it. Subscriptions are per widget; no count per key is
  kept. While the shared socket is open, every widget whose load for the key
  resolves sends one subscribe frame, whoever else holds the key, and every
  removal of a widget holding the key sends one unsubscribe frame. So after any
  sequence of such acquires and releases the subscribe frames sent for the key
  exceed the unsubscribe frames by the number of acquires less the number of
  releases.
\<close>

theorem frames_follow_holders:
  assumes "wsSingleton w = Some c" and "c < length (sockets w)"
    and "readyState (sockets w ! c) = OPEN"
    and "symb \<noteq> []" and "instrument_key hist = Some key" and "key \<noteq> []"
    and "lifecycle {} ops"
  shows "sent (acquire pn pd symb q hist w h) = sent w @ [(c, Subscribe key)]
     \<and> int (subscribes key (run_ops pn pd symb q hist w ops))
         - int (unsubscribes key (run_ops pn pd symb q hist w ops))
       = int (subscribes key w) - int (unsubscribes key w) + refcount ops"
proof -
  have "open_inv c key {} w" using assms(1-3) by (simp add: open_inv_def)
  from run_ops_frames[OF assms(4-6) this assms(7)] acquire_open(1)[OF assms(1-6)]
  show ?thesis by simp
qed

text \<open>Two charts of NIFTY 50 are added and the first is removed.\<close>

theorem frames_follow_holders_witness:
  "wsSingleton open_world = Some 0 \<and> 0 < length (sockets open_world)
   \<and> readyState (sockets open_world ! 0) = OPEN
   \<and> instrument_key hist1 = Some ''NSE_INDEX|Nifty 50''
   \<and> lifecycle {} [Acquire 0, Acquire 1, Release 0]
   \<and> refcount [Acquire 0, Acquire 1, Release 0] = 1
   \<and> sent (run_ops no_number no_date ''NIFTY 50'' (Some quote1) hist1 open_world
              [Acquire 0, Acquire 1, Release 0])
       = [(0, Subscribe ''NSE_INDEX|Nifty 50''), (0, Subscribe ''NSE_INDEX|Nifty 50''),
          (0, Unsubscribe ''NSE_INDEX|Nifty 50'')]
   \<and> int (subscribes ''NSE_INDEX|Nifty 50''
        (run_ops no_number no_date ''NIFTY 50'' (Some quote1) hist1 open_world
           [Acquire 0, Acquire 1, Release 0]))
     - int (unsubscribes ''NSE_INDEX|Nifty 50''
        (run_ops no_number no_date ''NIFTY 50'' (Some quote1) hist1 open_world
           [Acquire 0, Acquire 1, Release 0]))
     = 1"
  using frames_follow_holders[of open_world 0 "''NIFTY 50''" hist1 "''NSE_INDEX|Nifty 50''"
      "[Acquire 0, Acquire 1, Release 0]" no_number no_date "Some quote1" 0]
  by (simp add: open_world_eval acquire_def hist1_def eval_defs subscribes_def unsubscribes_def
      unmount_def cleanup_def removeListeners_def)

text \<open>
  Two charts of NIFTY 50 on the open socket: the second acquire sends a second
  subscribe frame for the key, and subscribe frames exceed unsubscribe frames
  by two.
\<close>

theorem duplicate_subscribe_frames:
  "sent open_world = []
   \<and> sent (run_ops no_number no_date ''NIFTY 50'' (Some quote1) hist1 open_world [Acquire 0])
       = [(0, Subscribe ''NSE_INDEX|Nifty 50'')]
   \<and> sent (run_ops no_number no_date ''NIFTY 50'' (Some quote1) hist1 open_world
              [Acquire 0, Acquire 1])
       = [(0, Subscribe ''NSE_INDEX|Nifty 50''), (0, Subscribe ''NSE_INDEX|Nifty 50'')]
   \<and> int (subscribes ''NSE_INDEX|Nifty 50''
        (run_ops no_number no_date ''NIFTY 50'' (Some quote1) hist1 open_world
           [Acquire 0, Acquire 1]))
     - int (unsubscribes ''NSE_INDEX|Nifty 50''
        (run_ops no_number no_date ''NIFTY 50'' (Some quote1) hist1 open_world
           [Acquire 0, Acquire 1]))
     = 2"
  by (simp add: open_world_eval acquire_def hist1_def eval_defs subscribes_def unsubscribes_def)

text \<open>
  A release by symbol switch is different: the cleanup of the old run and the
  body of the new run each send an unsubscribe frame for the old key.
\<close>

lemma symbol_switch_unsubscribes_twice:
  "sent loaded1 = [(0, Subscribe ''NSE_INDEX|Nifty 50'')]
   \<and> sent (setSymbol loaded1 0 ''RELIANCE'')
       = [(0, Subscribe ''NSE_INDEX|Nifty 50''), (0, Unsubscribe ''NSE_INDEX|Nifty 50''),
          (0, Unsubscribe ''NSE_INDEX|Nifty 50'')]"
  by (simp add: loaded1_eval setSymbol_def cleanup_def removeListeners_def closure1_def eval_defs)

section \<open>The paper-trading ledger\<close>

text \<open>
  Claim C10. \<open>handleTrade\<close> appends the trade to the history whatever it is.
  A buy whose cost exceeds the balance, and a sell of a symbol that is not held
  or of more shares than are held, change neither the balance nor the portfolio,
  and are in the history all the same.
\<close>

theorem rejected_trade_is_recorded:
  "trades (handleTrade s tr) = trades s @ [tr]
   \<and> ((tr_type tr = ''buy'' \<and> js_gt (js_mul (tr_quantity tr) (tr_price tr)) (balance s))
       \<or> (tr_type tr = ''sell'' \<and>
            (case portfolio s (tr_symbol tr) of
               None \<Rightarrow> True
             | Some hld \<Rightarrow> js_less (quantity hld) (tr_quantity tr)))
      \<longrightarrow> balance (handleTrade s tr) = balance s \<and> portfolio (handleTrade s tr) = portfolio s)"
  by (auto simp: handleTrade_def Let_def split: option.splits)

theorem rejected_trade_is_recorded_witness:
  "tr_type big_buy = ''buy''
   \<and> js_gt (js_mul (tr_quantity big_buy) (tr_price big_buy)) (balance ledger0)
   \<and> trades (handleTrade ledger0 big_buy) = [big_buy]
   \<and> balance (handleTrade ledger0 big_buy) = Fin 100000
   \<and> portfolio (handleTrade ledger0 big_buy) = portfolio ledger0
   \<and> tr_type big_sell = ''sell''
   \<and> portfolio ledger1 (tr_symbol big_sell) = Some \<lparr> quantity = Fin 5, avgPrice = Fin 3500 \<rparr>
   \<and> js_less (Fin 5) (tr_quantity big_sell)
   \<and> trades (handleTrade ledger1 big_sell) = [big_sell]
   \<and> balance (handleTrade ledger1 big_sell) = Fin 82500
   \<and> portfolio (handleTrade ledger1 big_sell) = portfolio ledger1"
  using rejected_trade_is_recorded[of ledger0 big_buy] rejected_trade_is_recorded[of ledger1 big_sell]
  by (simp add: big_buy_def big_sell_def ledger0_def ledger1_def js_gt_def)

end
